theory Spec2Isabelle
  imports Main "HOL-Library.Sublist" "HOL-Library.Multiset" "HOL-Library.AList"
begin

section \<open>Data model (orchestrator/models.py)\<close>

text \<open>
  The enumerations of \<^verbatim>\<open>models.py\<close> are datatypes, the pydantic models are records.
  Several models share field names (\<^verbatim>\<open>timestamp\<close>, \<^verbatim>\<open>progress\<close>, ...) and \<^verbatim>\<open>text\<close> is a
  keyword, so every field carries a prefix naming its model: \<open>pl_\<close> for EventPayload,
  \<open>ev_\<close> for Event, \<open>ws_\<close> for WorkerState, \<open>pr_\<close> for PeerReview, \<open>dec_\<close> for
  OrchestratorDecision.
\<close>

datatype AgentName = GEMINI | CODEX | CLAUDE

datatype EventType =
  STATUS | PROGRESS | FINDING | TASK | BLOCKER | MILESTONE | REVIEW | ERROR | RECOVERY
  | PERMISSION_BLOCKER

datatype Verdict = V_APPROVED | V_CONCERNS | V_BLOCKER

datatype Action = CONTINUE | LOG_WARNING | PAUSE_AND_CLARIFY | STOP_AND_ESCALATE

datatype WorkerStatus = IDLE | RUNNING | BLOCKED | COMPLETED | FAILED | RECOVERING

text \<open>A \<^verbatim>\<open>datetime\<close> is a number of microseconds; \<^verbatim>\<open>datetime.utcnow()\<close> is the
  argument \<open>now\<close> of every function that reads the clock.\<close>

type_synonym datetime = int

text \<open>Python floats are not computed with; only their truth value is read
  (\<^verbatim>\<open>not event_type\<close>). A finite float is \<open>m * 10 ^ e\<close>.\<close>

datatype pyfloat = Finite int int | NaN | Infinity bool

text \<open>A decoded JSON value, as \<^verbatim>\<open>json.loads\<close> returns it. A dict is an association list
  in insertion order, read with \<open>map_of\<close>.\<close>

datatype json =
  JNull
  | JBool bool
  | JInt int
  | JFloat pyfloat
  | JString string
  | JArray "json list"
  | JObject "(string \<times> json) list"

record EventPayload =
  pl_text :: string
  pl_progress :: "int option"
  pl_file :: "string option"
  pl_data :: "(string \<times> json) list option"

record Event =
  ev_type :: EventType
  ev_agent :: AgentName
  ev_timestamp :: datetime
  ev_payload :: EventPayload

record PeerReview =
  pr_reviewer :: AgentName
  pr_target :: AgentName
  pr_verdict :: Verdict
  pr_issues :: "string list"
  pr_recommendations :: "string list"
  pr_timestamp :: datetime

record OrchestratorDecision =
  dec_action :: Action
  dec_reason :: string
  dec_next_steps :: string
  dec_timestamp :: datetime

record WorkerState =
  ws_name :: AgentName
  ws_status :: WorkerStatus
  ws_task :: "string option"
  ws_process_id :: "int option"
  ws_start_time :: "datetime option"
  ws_last_event :: "Event option"
  ws_progress :: int
  ws_error_count :: int

section \<open>Python string operations\<close>

text \<open>Strings are ASCII: \<^verbatim>\<open>str.lower\<close> maps \<open>A\<close>..\<open>Z\<close>, \<^verbatim>\<open>str.strip\<close> removes the ASCII
  white space characters (codes 9 to 13, 28 to 31 and 32).\<close>

definition lower_char :: "char \<Rightarrow> char" where
  "lower_char c =
     (case map_of (zip ''ABCDEFGHIJKLMNOPQRSTUVWXYZ'' ''abcdefghijklmnopqrstuvwxyz'') c of
        Some l \<Rightarrow> l
      | None \<Rightarrow> c)"

definition lower :: "string \<Rightarrow> string" where
  "lower s = map lower_char s"

definition isspace :: "char \<Rightarrow> bool" where
  "isspace c =
     (let n = (of_char c :: nat) in (9 \<le> n \<and> n \<le> 13) \<or> (28 \<le> n \<and> n \<le> 32))"

definition strip :: "string \<Rightarrow> string" where
  "strip s = rev (dropWhile isspace (rev (dropWhile isspace s)))"

text \<open>\<^verbatim>\<open>needle in hay\<close> on strings.\<close>

fun str_in :: "string \<Rightarrow> string \<Rightarrow> bool" where
  "str_in needle [] = (needle = [])"
| "str_in needle (c # cs) = (prefix needle (c # cs) \<or> str_in needle cs)"

text \<open>\<^verbatim>\<open>str(n)\<close> for a length.\<close>

fun str_nat :: "nat \<Rightarrow> string" where
  "str_nat n =
     (if n < 10 then [''0123456789'' ! n]
      else str_nat (n div 10) @ [''0123456789'' ! (n mod 10)])"

declare str_nat.simps [simp del]

section \<open>Review engine (orchestrator/review_engine.py)\<close>

record ReviewEngine =
  reviews :: "PeerReview list"
  decisions :: "OrchestratorDecision list"
  last_review_time :: "datetime option"
  review_counter :: nat

text \<open>\<^verbatim>\<open>ReviewEngine.__init__\<close>.\<close>

definition ReviewEngine_init :: ReviewEngine where
  "ReviewEngine_init =
     \<lparr>reviews = [], decisions = [], last_review_time = None, review_counter = 0\<rparr>"

text \<open>The inner loop of \<^verbatim>\<open>should_trigger_review\<close> over one agent's events: True is the
  early \<^verbatim>\<open>return True\<close>.\<close>

fun trigger_in_events :: "Event list \<Rightarrow> bool" where
  "trigger_in_events [] = False"
| "trigger_in_events (event # rest) =
     (if ev_type event \<in> set [MILESTONE, BLOCKER] then True
      else if str_in ''review'' (lower (pl_text (ev_payload event))) then True
      else trigger_in_events rest)"

text \<open>The outer loop over \<^verbatim>\<open>events.values()\<close>.\<close>

fun trigger_in_agents :: "(AgentName \<times> Event list) list \<Rightarrow> bool" where
  "trigger_in_agents [] = False"
| "trigger_in_agents ((name, agent_events) # rest) =
     (if trigger_in_events agent_events then True else trigger_in_agents rest)"

text \<open>\<^verbatim>\<open>timedelta(minutes=15)\<close> in microseconds.\<close>

definition fifteen_minutes :: int where
  "fifteen_minutes = 15 * 60 * 1000000"

definition should_trigger_review ::
  "ReviewEngine \<Rightarrow> datetime \<Rightarrow> (AgentName \<times> Event list) list \<Rightarrow> bool \<Rightarrow> bool" where
  "should_trigger_review self now events force =
     (if force then True
      else if trigger_in_agents events then True
      else (case last_review_time self of
              None \<Rightarrow> False
            | Some t \<Rightarrow> (if now - t > fifteen_minutes then True else False)))"

text \<open>\<^verbatim>\<open>evaluate_reviews\<close>: the decision, and the engine with the decision appended and
  the review time recorded.\<close>

definition evaluate_reviews ::
  "ReviewEngine \<Rightarrow> datetime \<Rightarrow> PeerReview list \<Rightarrow> OrchestratorDecision \<times> ReviewEngine" where
  "evaluate_reviews self now rs =
     (let blockers = filter (\<lambda>r. pr_verdict r = V_BLOCKER) rs;
          concerns = filter (\<lambda>r. pr_verdict r = V_CONCERNS) rs;
          approved = filter (\<lambda>r. pr_verdict r = V_APPROVED) rs;
          decision =
            (if length blockers > 0 then
               \<lparr>dec_action = STOP_AND_ESCALATE,
                dec_reason = str_nat (length blockers) @ '' blocker(s) detected'',
                dec_next_steps = ''Present issue to user, await decision'',
                dec_timestamp = now\<rparr>
             else if length concerns \<ge> 2 then
               \<lparr>dec_action = PAUSE_AND_CLARIFY,
                dec_reason = ''Majority have concerns'',
                dec_next_steps = ''Orchestrator clarifies requirements, agents resume'',
                dec_timestamp = now\<rparr>
             else if length concerns = 1 then
               \<lparr>dec_action = LOG_WARNING,
                dec_reason = ''One agent has concerns'',
                dec_next_steps = ''Continue but monitor closely, review again in 10 min'',
                dec_timestamp = now\<rparr>
             else if length approved = length rs then
               \<lparr>dec_action = CONTINUE,
                dec_reason = ''All reviews positive'',
                dec_next_steps = ''Continue work, next review on event trigger'',
                dec_timestamp = now\<rparr>
             else
               \<lparr>dec_action = LOG_WARNING,
                dec_reason = ''Mixed or unclear review results'',
                dec_next_steps = ''Continue with caution'',
                dec_timestamp = now\<rparr>)
      in (decision,
          self\<lparr>decisions := decisions self @ [decision], last_review_time := Some now\<rparr>))"

section \<open>Event ingestion (orchestrator/workers.py)\<close>

text \<open>
  The Python library functions that ingestion calls are arguments of the model:
  \<^item> \<open>json_loads\<close> is \<^verbatim>\<open>json.loads\<close>, with its three outcomes: a value, the
    \<^verbatim>\<open>JSONDecodeError\<close> that \<^verbatim>\<open>read_events\<close> catches per line, and any other exception,
    which only the outer handler of \<^verbatim>\<open>read_events\<close> catches;
  \<^item> \<open>EventPayload_new\<close> is the pydantic constructor \<^verbatim>\<open>EventPayload(**payload_data)\<close>,
    None when it raises;
  \<^item> \<open>fromisoformat\<close> is \<^verbatim>\<open>datetime.fromisoformat(data["timestamp"].replace("Z", "+00:00"))\<close>,
    None when it raises;
  \<^item> \<open>py_str\<close> is \<^verbatim>\<open>str\<close> on a decoded value.
\<close>

datatype loads_result = Decoded json | JSONDecodeError | OtherException

record pylib =
  json_loads :: "string \<Rightarrow> loads_result"
  EventPayload_new :: "(string \<times> json) list \<Rightarrow> EventPayload option"
  fromisoformat :: "json \<Rightarrow> datetime option"
  py_str :: "json \<Rightarrow> string"

text \<open>Python's truth value of a decoded value (\<^verbatim>\<open>not event_type\<close>).\<close>

fun truthy :: "json \<Rightarrow> bool" where
  "truthy JNull = False"
| "truthy (JBool b) = b"
| "truthy (JInt n) = (n \<noteq> 0)"
| "truthy (JFloat (Finite m e)) = (m \<noteq> 0)"
| "truthy (JFloat NaN) = True"
| "truthy (JFloat (Infinity sign)) = True"
| "truthy (JString s) = (s \<noteq> [])"
| "truthy (JArray xs) = (xs \<noteq> [])"
| "truthy (JObject kvs) = (kvs \<noteq> [])"

text \<open>\<^verbatim>\<open>EventType(event_type)\<close>: lookup by value, None for the \<^verbatim>\<open>ValueError\<close>.\<close>

definition EventType_values :: "(string \<times> EventType) list" where
  "EventType_values =
     [(''status'', STATUS), (''progress'', PROGRESS), (''finding'', FINDING), (''task'', TASK),
      (''blocker'', BLOCKER), (''milestone'', MILESTONE), (''review'', REVIEW),
      (''error'', ERROR), (''recovery'', RECOVERY), (''permission_blocker'', PERMISSION_BLOCKER)]"

fun EventType_of :: "json \<Rightarrow> EventType option" where
  "EventType_of (JString s) = map_of EventType_values s"
| "EventType_of v = None"

text \<open>\<^verbatim>\<open>WorkerProcess._parse_event\<close>. None is \<^verbatim>\<open>return None\<close>, also from the handler
  \<^verbatim>\<open>except Exception\<close>: \<^verbatim>\<open>data.get\<close> raises on a value that is not a dict.\<close>

definition parse_event :: "pylib \<Rightarrow> AgentName \<Rightarrow> datetime \<Rightarrow> json \<Rightarrow> Event option" where
  "parse_event lib name now data =
     (case data of
        JObject kvs \<Rightarrow>
          (case map_of kvs ''type'' of
             None \<Rightarrow> None
           | Some event_type \<Rightarrow>
               if \<not> truthy event_type then None
               else
                 (case EventType_of event_type of
                    None \<Rightarrow> None
                  | Some event_type_enum \<Rightarrow>
                      let payload_data =
                            (case map_of kvs ''payload'' of
                               None \<Rightarrow> []
                             | Some (JString s) \<Rightarrow> [(''text'', JString s)]
                             | Some (JObject d) \<Rightarrow> d
                             | Some v \<Rightarrow> [(''text'', JString (py_str lib v))]);
                          payload_data' =
                            (if map_of payload_data ''text'' = None then
                               payload_data @
                                 [(''text'',
                                   (case map_of kvs ''message'' of
                                      None \<Rightarrow> JString (py_str lib data)
                                    | Some m \<Rightarrow> m))]
                             else payload_data)
                      in (case EventPayload_new lib payload_data' of
                            None \<Rightarrow> None
                          | Some payload \<Rightarrow>
                              let timestamp =
                                    (case map_of kvs ''timestamp'' of
                                       None \<Rightarrow> now
                                     | Some t \<Rightarrow>
                                         (case fromisoformat lib t of
                                            None \<Rightarrow> now
                                          | Some ts \<Rightarrow> ts))
                              in Some \<lparr>ev_type = event_type_enum, ev_agent = name,
                                       ev_timestamp = timestamp, ev_payload = payload\<rparr>)))
      | _ \<Rightarrow> None)"

text \<open>The synthetic event of the handler \<^verbatim>\<open>except json.JSONDecodeError\<close>.\<close>

definition malformed_event :: "AgentName \<Rightarrow> datetime \<Rightarrow> string \<Rightarrow> Event" where
  "malformed_event name now line =
     \<lparr>ev_type = ERROR, ev_agent = name, ev_timestamp = now,
      ev_payload = \<lparr>pl_text = ''Malformed JSON: '' @ take 200 line, pl_progress = None,
                    pl_file = None, pl_data = None\<rparr>\<rparr>"

text \<open>The loop \<^verbatim>\<open>for line in f\<close> of \<^verbatim>\<open>read_events\<close>, on the lines the file yields from
  the saved offset. An exception other than \<^verbatim>\<open>JSONDecodeError\<close> leaves the loop for the
  outer handler, which logs it: the events read so far are returned.\<close>

fun read_lines :: "pylib \<Rightarrow> AgentName \<Rightarrow> datetime \<Rightarrow> string list \<Rightarrow> Event list" where
  "read_lines lib name now [] = []"
| "read_lines lib name now (raw # rest) =
     (let line = strip raw in
      if line = [] then read_lines lib name now rest
      else
        (case json_loads lib line of
           Decoded data \<Rightarrow>
             (case parse_event lib name now data of
                Some event \<Rightarrow> event # read_lines lib name now rest
              | None \<Rightarrow> read_lines lib name now rest)
         | JSONDecodeError \<Rightarrow> malformed_event name now line # read_lines lib name now rest
         | OtherException \<Rightarrow> []))"

text \<open>\<^verbatim>\<open>WorkerProcess.read_events\<close>. The output file is None when it does not exist, else
  its lines from the saved offset. The result is always a list: nothing is raised.\<close>

definition read_events :: "pylib \<Rightarrow> AgentName \<Rightarrow> datetime \<Rightarrow> string list option \<Rightarrow> Event list" where
  "read_events lib name now output_file =
     (case output_file of None \<Rightarrow> [] | Some lines \<Rightarrow> read_lines lib name now lines)"

text \<open>A worker process as the coordinator and the recovery engine see it:
  \<open>wp_is_running\<close> is what \<^verbatim>\<open>is_running()\<close> returns, \<open>wp_stderr_lines\<close> what
  \<^verbatim>\<open>read_stderr_lines()\<close> returns, \<open>wp_state\<close> the attribute \<^verbatim>\<open>state\<close>.\<close>

record WorkerProcess =
  wp_name :: AgentName
  wp_is_running :: bool
  wp_stderr_lines :: "string list"
  wp_state :: WorkerState

section \<open>Worker state tracker and completion check (orchestrator/coordinator.py)\<close>

text \<open>
  \<^verbatim>\<open>_update_worker_states_from_events\<close> works on \<^verbatim>\<open>worker_state\<close>, the entry of
  \<^verbatim>\<open>session.workers\<close>, and on \<^verbatim>\<open>worker\<close>, the entry of the worker manager (None when
  \<^verbatim>\<open>get_worker\<close> finds none), whose \<^verbatim>\<open>state\<close> the closures keep in step.
\<close>

type_synonym tracked = "WorkerState \<times> WorkerProcess option"

definition sync_progress :: "int \<Rightarrow> tracked \<Rightarrow> tracked" where
  "sync_progress v = (\<lambda>(worker_state, worker).
     let new_progress = max (ws_progress worker_state) v
     in (worker_state\<lparr>ws_progress := new_progress\<rparr>,
         map_option (\<lambda>w. w\<lparr>wp_state := (wp_state w)\<lparr>ws_progress := new_progress\<rparr>\<rparr>) worker))"

definition sync_status :: "WorkerStatus \<Rightarrow> tracked \<Rightarrow> tracked" where
  "sync_status status = (\<lambda>(worker_state, worker).
     (worker_state\<lparr>ws_status := status\<rparr>,
      map_option (\<lambda>w. w\<lparr>wp_state := (wp_state w)\<lparr>ws_status := status\<rparr>\<rparr>) worker))"

text \<open>The two assignments of the loop that write \<^verbatim>\<open>worker_state\<close> only:
  \<^verbatim>\<open>worker_state.last_event = event\<close> and \<^verbatim>\<open>worker_state.error_count += 1\<close>.\<close>

definition set_last_event :: "Event \<Rightarrow> tracked \<Rightarrow> tracked" where
  "set_last_event event = (\<lambda>(worker_state, worker).
     (worker_state\<lparr>ws_last_event := Some event\<rparr>, worker))"

definition incr_error_count :: "tracked \<Rightarrow> tracked" where
  "incr_error_count = (\<lambda>(worker_state, worker).
     (worker_state\<lparr>ws_error_count := ws_error_count worker_state + 1\<rparr>, worker))"

text \<open>The body of the loop \<^verbatim>\<open>for event in events\<close>.\<close>

definition fold_event :: "Event \<Rightarrow> tracked \<Rightarrow> tracked" where
  "fold_event event s =
     (let s1 = set_last_event event s;
          s2 = (case pl_progress (ev_payload event) of
                  Some v \<Rightarrow> sync_progress v s1
                | None \<Rightarrow> s1);
          s3 = (if ev_type event = PROGRESS then sync_status RUNNING s2
                else if ev_type event = STATUS then sync_status RUNNING s2
                else if ev_type event = BLOCKER then sync_status BLOCKED s2
                else if ev_type event = ERROR then
                  (if str_in ''blocker'' (lower (pl_text (ev_payload event)))
                   then sync_status BLOCKED (incr_error_count s2)
                   else incr_error_count s2)
                else if ev_type event = MILESTONE then
                  sync_progress (min (ws_progress (fst s2) + 20) 90) s2
                else if ev_type event = RECOVERY then sync_status RECOVERING s2
                else s2)
      in if str_in ''complete'' (lower (pl_text (ev_payload event)))
            \<or> str_in ''done'' (lower (pl_text (ev_payload event)))
         then sync_progress 100 (sync_status COMPLETED s3)
         else s3)"

fun fold_events :: "Event list \<Rightarrow> tracked \<Rightarrow> tracked" where
  "fold_events [] s = s"
| "fold_events (event # rest) s = fold_events rest (fold_event event s)"

text \<open>The block \<^verbatim>\<open>if worker:\<close> after the loop: a worker that stopped while its status
  is running is resolved by its progress, then the process state is copied from the
  session state.\<close>

definition update_process_status :: "tracked \<Rightarrow> tracked" where
  "update_process_status = (\<lambda>(worker_state, worker).
     (case worker of
        None \<Rightarrow> (worker_state, None)
      | Some w \<Rightarrow>
          let s = (if \<not> wp_is_running w then
                     (if ws_status worker_state = RUNNING then
                        (if ws_progress worker_state \<ge> 90
                         then sync_status COMPLETED (worker_state, Some w)
                         else sync_status FAILED (worker_state, Some w))
                      else (worker_state, Some w))
                   else (worker_state, Some w))
          in (fst s,
              map_option (\<lambda>w'. w'\<lparr>wp_state := (wp_state w')
                   \<lparr>ws_progress := ws_progress (fst s), ws_status := ws_status (fst s),
                    ws_last_event := ws_last_event (fst s),
                    ws_error_count := ws_error_count (fst s)\<rparr>\<rparr>) (snd s))))"

text \<open>The part of the coordinator the tracker and the completion check read: the dict
  \<^verbatim>\<open>session.workers\<close> and the dict \<^verbatim>\<open>worker_manager.workers\<close>, in insertion order.\<close>

record Coordinator =
  session_workers :: "(AgentName \<times> WorkerState) list"
  manager_workers :: "(AgentName \<times> WorkerProcess) list"

text \<open>\<^verbatim>\<open>Coordinator._update_worker_states_from_events\<close>: the loop over
  \<^verbatim>\<open>all_events.items()\<close>.\<close>

fun update_worker_states_from_events ::
  "Coordinator \<Rightarrow> (AgentName \<times> Event list) list \<Rightarrow> Coordinator" where
  "update_worker_states_from_events self [] = self"
| "update_worker_states_from_events self ((agent_name, events) # rest) =
     (case map_of (session_workers self) agent_name of
        None \<Rightarrow> update_worker_states_from_events self rest
      | Some worker_state \<Rightarrow>
          let worker = map_of (manager_workers self) agent_name;
              s = update_process_status (fold_events events (worker_state, worker))
          in update_worker_states_from_events
               (self\<lparr>session_workers := AList.update agent_name (fst s) (session_workers self),
                     manager_workers :=
                       (case snd s of
                          None \<Rightarrow> manager_workers self
                        | Some w \<Rightarrow> AList.update agent_name w (manager_workers self))\<rparr>)
               rest)"

text \<open>The loop of \<^verbatim>\<open>check_completion\<close> over \<^verbatim>\<open>session.workers.items()\<close>; the result is
  \<^verbatim>\<open>all_complete\<close>, False at the \<^verbatim>\<open>break\<close>.\<close>

fun all_complete :: "(AgentName \<times> WorkerProcess) list \<Rightarrow> (AgentName \<times> WorkerState) list \<Rightarrow> bool" where
  "all_complete manager [] = True"
| "all_complete manager ((agent_name, worker_state) # rest) =
     (if ws_status worker_state \<notin> set [COMPLETED, FAILED] then
        (case map_of manager agent_name of
           Some worker \<Rightarrow> (if wp_is_running worker then False else all_complete manager rest)
         | None \<Rightarrow> all_complete manager rest)
      else all_complete manager rest)"

definition check_completion :: "Coordinator \<Rightarrow> bool" where
  "check_completion self =
     (if session_workers self = [] then False
      else all_complete (manager_workers self) (session_workers self))"

section \<open>Error detection (orchestrator/recovery.py)\<close>

definition ERROR_PATTERNS :: "AgentName \<Rightarrow> string list" where
  "ERROR_PATTERNS agent_name =
     (case agent_name of
        GEMINI \<Rightarrow>
          [''Path must be within one of the workspace directories'',
           ''File path must be within one of the workspace directories'',
           ''Permission denied'',
           ''Authentication required'']
      | CODEX \<Rightarrow>
          [''Not inside a trusted directory'',
           ''Permission denied'',
           ''Repository check failed'',
           ''not a git repository'']
      | CLAUDE \<Rightarrow>
          [''Permission denied'',
           ''Access blocked''])"

text \<open>\<^verbatim>\<open>re.search(pattern, error_text, re.IGNORECASE)\<close> as a truth value. Every pattern of
  \<open>ERROR_PATTERNS\<close> is a literal (letters and spaces only), so the search is a
  case-insensitive substring test.\<close>

definition re_search_IGNORECASE :: "string \<Rightarrow> string \<Rightarrow> bool" where
  "re_search_IGNORECASE pattern error_text = str_in (lower pattern) (lower error_text)"

text \<open>The loop \<^verbatim>\<open>for pattern in patterns\<close> of \<^verbatim>\<open>_detect_error_type\<close>.\<close>

fun detect_in_patterns :: "string list \<Rightarrow> string \<Rightarrow> string option" where
  "detect_in_patterns [] error_text = None"
| "detect_in_patterns (pattern # rest) error_text =
     (if re_search_IGNORECASE pattern error_text then
        (if str_in ''workspace directories'' error_text \<or> str_in ''workspace directories'' pattern
         then Some ''gemini_permissions''
         else if str_in ''trusted directory'' error_text \<or> str_in ''git repository'' error_text
         then Some ''codex_git_check''
         else if str_in ''Permission denied'' error_text
         then Some ''generic_permission''
         else detect_in_patterns rest error_text)
      else detect_in_patterns rest error_text)"

definition detect_error_type :: "AgentName \<Rightarrow> string \<Rightarrow> string option" where
  "detect_error_type agent_name error_text =
     detect_in_patterns (ERROR_PATTERNS agent_name) error_text"

text \<open>The second loop of \<^verbatim>\<open>check_for_errors\<close>, over the stderr lines.\<close>

fun check_stderr_lines :: "AgentName \<Rightarrow> string list \<Rightarrow> string option" where
  "check_stderr_lines name [] = None"
| "check_stderr_lines name (line # rest) =
     (case detect_error_type name line of
        Some error_type \<Rightarrow> Some error_type
      | None \<Rightarrow> check_stderr_lines name rest)"

text \<open>\<^verbatim>\<open>PermissionRecoveryEngine.check_for_errors\<close>: the loop over the events, then the
  stderr lines.\<close>

fun check_for_errors :: "WorkerProcess \<Rightarrow> Event list \<Rightarrow> string option" where
  "check_for_errors worker [] = check_stderr_lines (wp_name worker) (wp_stderr_lines worker)"
| "check_for_errors worker (event # rest) =
     (if ev_type event = ERROR then
        (case detect_error_type (wp_name worker) (pl_text (ev_payload event)) of
           Some error_type \<Rightarrow> Some error_type
         | None \<Rightarrow> check_for_errors worker rest)
      else check_for_errors worker rest)"

section \<open>Properties of the decision reduction\<close>

lemma count_verdicts:
  "count (mset (map pr_verdict rs)) v = length (filter (\<lambda>r. pr_verdict r = v) rs)"
  by (induction rs) auto

lemma all_approved_length:
  "(\<forall>r \<in> set rs. pr_verdict r = V_APPROVED) \<Longrightarrow>
     length (filter (\<lambda>r. pr_verdict r = V_APPROVED) rs) = length rs
     \<and> length (filter (\<lambda>r. pr_verdict r = V_CONCERNS) rs) = 0
     \<and> length (filter (\<lambda>r. pr_verdict r = V_BLOCKER) rs) = 0"
  by (induction rs) auto

lemma evaluate_reviews_action:
  "dec_action (fst (evaluate_reviews self now rs)) =
     (if count (mset (map pr_verdict rs)) V_BLOCKER > 0 then STOP_AND_ESCALATE
      else if count (mset (map pr_verdict rs)) V_CONCERNS \<ge> 2 then PAUSE_AND_CLARIFY
      else if count (mset (map pr_verdict rs)) V_CONCERNS = 1 then LOG_WARNING
      else if count (mset (map pr_verdict rs)) V_APPROVED = length rs then CONTINUE
      else LOG_WARNING)"
  unfolding count_verdicts by (simp add: evaluate_reviews_def Let_def)

lemma length_eq_of_mset_map:
  "mset (map f xs) = mset (map f ys) \<Longrightarrow> length xs = length ys"
  by (metis length_map mset_eq_length)

lemma some_rule_matches:
  "0 < length (filter (\<lambda>r. pr_verdict r = V_BLOCKER) rs)
   \<or> 2 \<le> length (filter (\<lambda>r. pr_verdict r = V_CONCERNS) rs)
   \<or> length (filter (\<lambda>r. pr_verdict r = V_CONCERNS) rs) = 1
   \<or> length (filter (\<lambda>r. pr_verdict r = V_APPROVED) rs) = length rs"
proof -
  have v: "\<And>r. pr_verdict r \<noteq> V_BLOCKER \<Longrightarrow> pr_verdict r \<noteq> V_CONCERNS \<Longrightarrow> pr_verdict r = V_APPROVED"
    by (metis Verdict.exhaust)
  have "length (filter (\<lambda>r. pr_verdict r = V_BLOCKER) rs) = 0 \<Longrightarrow>
        length (filter (\<lambda>r. pr_verdict r = V_CONCERNS) rs) = 0 \<Longrightarrow>
        length (filter (\<lambda>r. pr_verdict r = V_APPROVED) rs) = length rs"
    by (induction rs) (auto split: if_splits dest: v)
  then show ?thesis by linarith
qed

lemma blocker_reason_not_mixed:
  "str_nat n @ '' blocker(s) detected'' \<noteq> ''Mixed or unclear review results''"
proof
  assume "str_nat n @ '' blocker(s) detected'' = ''Mixed or unclear review results''"
  then have "last (str_nat n @ '' blocker(s) detected'') = last ''Mixed or unclear review results''"
    by (rule arg_cong)
  then show False by simp
qed

lemma reason_not_mixed:
  "dec_reason (fst (evaluate_reviews self now rs)) \<noteq> ''Mixed or unclear review results''"
proof -
  let ?nb = "length (filter (\<lambda>r. pr_verdict r = V_BLOCKER) rs)"
  let ?nc = "length (filter (\<lambda>r. pr_verdict r = V_CONCERNS) rs)"
  let ?na = "length (filter (\<lambda>r. pr_verdict r = V_APPROVED) rs)"
  consider "0 < ?nb" | "\<not> 0 < ?nb" "2 \<le> ?nc" | "\<not> 0 < ?nb" "\<not> 2 \<le> ?nc" "?nc = 1"
    | "\<not> 0 < ?nb" "\<not> 2 \<le> ?nc" "?nc \<noteq> 1" "?na = length rs"
    using some_rule_matches [of rs] by blast
  then show ?thesis
  proof cases
    case 1
    then show ?thesis
      using blocker_reason_not_mixed by (simp add: evaluate_reviews_def Let_def)
  next
    case 2
    then show ?thesis by (simp add: evaluate_reviews_def Let_def)
  next
    case 3
    then show ?thesis by (simp add: evaluate_reviews_def Let_def)
  next
    case 4
    then show ?thesis by (simp add: evaluate_reviews_def Let_def)
  qed
qed

text \<open>
  C1. The decision reduction applies its rules in a fixed order, the first match winning:
  with at least one blocker verdict the action is stop-and-escalate and the reason starts
  with the number of blockers; with no blocker and at least two concerns verdicts it is
  pause-and-clarify; with no blocker and exactly one concerns verdict it is log-warning;
  when every review is approved it is continue. Two lists of reviews with the same
  multiset of verdicts get the same action, whatever the engine state and the clock.
\<close>

theorem evaluate_reviews_precedence:
  "(count (mset (map pr_verdict rs)) V_BLOCKER \<ge> 1 \<longrightarrow>
      dec_action (fst (evaluate_reviews self now rs)) = STOP_AND_ESCALATE
      \<and> dec_reason (fst (evaluate_reviews self now rs)) =
          str_nat (count (mset (map pr_verdict rs)) V_BLOCKER) @ '' blocker(s) detected'')
   \<and> (count (mset (map pr_verdict rs)) V_BLOCKER = 0
      \<and> count (mset (map pr_verdict rs)) V_CONCERNS \<ge> 2 \<longrightarrow>
      dec_action (fst (evaluate_reviews self now rs)) = PAUSE_AND_CLARIFY)
   \<and> (count (mset (map pr_verdict rs)) V_BLOCKER = 0
      \<and> count (mset (map pr_verdict rs)) V_CONCERNS = 1 \<longrightarrow>
      dec_action (fst (evaluate_reviews self now rs)) = LOG_WARNING)
   \<and> ((\<forall>r \<in> set rs. pr_verdict r = V_APPROVED) \<longrightarrow>
      dec_action (fst (evaluate_reviews self now rs)) = CONTINUE)
   \<and> (mset (map pr_verdict rs) = mset (map pr_verdict rs') \<longrightarrow>
      dec_action (fst (evaluate_reviews self now rs)) =
      dec_action (fst (evaluate_reviews self' now' rs')))"
proof (intro conjI impI)
  assume "1 \<le> count (mset (map pr_verdict rs)) V_BLOCKER"
  then have b: "length (filter (\<lambda>r. pr_verdict r = V_BLOCKER) rs) > 0"
    unfolding count_verdicts by (auto simp: Suc_le_eq)
  from b show "dec_action (fst (evaluate_reviews self now rs)) = STOP_AND_ESCALATE"
    by (simp add: evaluate_reviews_def Let_def)
  from b show "dec_reason (fst (evaluate_reviews self now rs)) =
      str_nat (count (mset (map pr_verdict rs)) V_BLOCKER) @ '' blocker(s) detected''"
    unfolding count_verdicts by (simp add: evaluate_reviews_def Let_def)
next
  assume "count (mset (map pr_verdict rs)) V_BLOCKER = 0
      \<and> count (mset (map pr_verdict rs)) V_CONCERNS \<ge> 2"
  then show "dec_action (fst (evaluate_reviews self now rs)) = PAUSE_AND_CLARIFY"
    unfolding evaluate_reviews_action by simp
next
  assume "count (mset (map pr_verdict rs)) V_BLOCKER = 0
      \<and> count (mset (map pr_verdict rs)) V_CONCERNS = 1"
  then show "dec_action (fst (evaluate_reviews self now rs)) = LOG_WARNING"
    unfolding evaluate_reviews_action by simp
next
  assume "\<forall>r \<in> set rs. pr_verdict r = V_APPROVED"
  from all_approved_length [OF this]
  show "dec_action (fst (evaluate_reviews self now rs)) = CONTINUE"
    by (simp add: evaluate_reviews_def Let_def)
next
  assume eq: "mset (map pr_verdict rs) = mset (map pr_verdict rs')"
  have len: "length rs = length rs'"
    using eq by (rule length_eq_of_mset_map)
  show "dec_action (fst (evaluate_reviews self now rs)) =
      dec_action (fst (evaluate_reviews self' now' rs'))"
    unfolding evaluate_reviews_action eq len ..
qed

theorem evaluate_reviews_precedence_witness:
  "(1 \<le> count (mset (map pr_verdict
       [\<lparr>pr_reviewer = CODEX, pr_target = GEMINI, pr_verdict = V_BLOCKER,
         pr_issues = [''Critical architecture flaw''], pr_recommendations = [''Redesign component X''], pr_timestamp = 0\<rparr>,
        \<lparr>pr_reviewer = GEMINI, pr_target = CLAUDE, pr_verdict = V_APPROVED,
         pr_issues = [], pr_recommendations = [], pr_timestamp = 0\<rparr>])) V_BLOCKER
    \<and> dec_action (fst (evaluate_reviews ReviewEngine_init 0
       [\<lparr>pr_reviewer = CODEX, pr_target = GEMINI, pr_verdict = V_BLOCKER,
         pr_issues = [''Critical architecture flaw''], pr_recommendations = [''Redesign component X''], pr_timestamp = 0\<rparr>,
        \<lparr>pr_reviewer = GEMINI, pr_target = CLAUDE, pr_verdict = V_APPROVED,
         pr_issues = [], pr_recommendations = [], pr_timestamp = 0\<rparr>])) = STOP_AND_ESCALATE
    \<and> dec_reason (fst (evaluate_reviews ReviewEngine_init 0
       [\<lparr>pr_reviewer = CODEX, pr_target = GEMINI, pr_verdict = V_BLOCKER,
         pr_issues = [''Critical architecture flaw''], pr_recommendations = [''Redesign component X''], pr_timestamp = 0\<rparr>,
        \<lparr>pr_reviewer = GEMINI, pr_target = CLAUDE, pr_verdict = V_APPROVED,
         pr_issues = [], pr_recommendations = [], pr_timestamp = 0\<rparr>])) = ''1 blocker(s) detected'')
   \<and> (count (mset (map pr_verdict
       [\<lparr>pr_reviewer = CODEX, pr_target = GEMINI, pr_verdict = V_CONCERNS,
         pr_issues = [''Minor issue 1''], pr_recommendations = [], pr_timestamp = 0\<rparr>,
        \<lparr>pr_reviewer = GEMINI, pr_target = CLAUDE, pr_verdict = V_CONCERNS,
         pr_issues = [''Minor issue 2''], pr_recommendations = [], pr_timestamp = 0\<rparr>])) V_BLOCKER = 0
    \<and> 2 \<le> count (mset (map pr_verdict
       [\<lparr>pr_reviewer = CODEX, pr_target = GEMINI, pr_verdict = V_CONCERNS,
         pr_issues = [''Minor issue 1''], pr_recommendations = [], pr_timestamp = 0\<rparr>,
        \<lparr>pr_reviewer = GEMINI, pr_target = CLAUDE, pr_verdict = V_CONCERNS,
         pr_issues = [''Minor issue 2''], pr_recommendations = [], pr_timestamp = 0\<rparr>])) V_CONCERNS
    \<and> dec_action (fst (evaluate_reviews ReviewEngine_init 0
       [\<lparr>pr_reviewer = CODEX, pr_target = GEMINI, pr_verdict = V_CONCERNS,
         pr_issues = [''Minor issue 1''], pr_recommendations = [], pr_timestamp = 0\<rparr>,
        \<lparr>pr_reviewer = GEMINI, pr_target = CLAUDE, pr_verdict = V_CONCERNS,
         pr_issues = [''Minor issue 2''], pr_recommendations = [], pr_timestamp = 0\<rparr>])) = PAUSE_AND_CLARIFY)
   \<and> (count (mset (map pr_verdict
       [\<lparr>pr_reviewer = CODEX, pr_target = GEMINI, pr_verdict = V_CONCERNS,
         pr_issues = [''Minor issue 1''], pr_recommendations = [], pr_timestamp = 0\<rparr>,
        \<lparr>pr_reviewer = GEMINI, pr_target = CLAUDE, pr_verdict = V_APPROVED,
         pr_issues = [], pr_recommendations = [], pr_timestamp = 0\<rparr>])) V_BLOCKER = 0
    \<and> count (mset (map pr_verdict
       [\<lparr>pr_reviewer = CODEX, pr_target = GEMINI, pr_verdict = V_CONCERNS,
         pr_issues = [''Minor issue 1''], pr_recommendations = [], pr_timestamp = 0\<rparr>,
        \<lparr>pr_reviewer = GEMINI, pr_target = CLAUDE, pr_verdict = V_APPROVED,
         pr_issues = [], pr_recommendations = [], pr_timestamp = 0\<rparr>])) V_CONCERNS = 1
    \<and> dec_action (fst (evaluate_reviews ReviewEngine_init 0
       [\<lparr>pr_reviewer = CODEX, pr_target = GEMINI, pr_verdict = V_CONCERNS,
         pr_issues = [''Minor issue 1''], pr_recommendations = [], pr_timestamp = 0\<rparr>,
        \<lparr>pr_reviewer = GEMINI, pr_target = CLAUDE, pr_verdict = V_APPROVED,
         pr_issues = [], pr_recommendations = [], pr_timestamp = 0\<rparr>])) = LOG_WARNING)
   \<and> (list_all (\<lambda>r. pr_verdict r = V_APPROVED)
       [\<lparr>pr_reviewer = CODEX, pr_target = GEMINI, pr_verdict = V_APPROVED,
         pr_issues = [], pr_recommendations = [], pr_timestamp = 0\<rparr>,
        \<lparr>pr_reviewer = GEMINI, pr_target = CLAUDE, pr_verdict = V_APPROVED,
         pr_issues = [], pr_recommendations = [], pr_timestamp = 0\<rparr>,
        \<lparr>pr_reviewer = CODEX, pr_target = CLAUDE, pr_verdict = V_APPROVED,
         pr_issues = [], pr_recommendations = [], pr_timestamp = 0\<rparr>]
    \<and> dec_action (fst (evaluate_reviews ReviewEngine_init 0
       [\<lparr>pr_reviewer = CODEX, pr_target = GEMINI, pr_verdict = V_APPROVED,
         pr_issues = [], pr_recommendations = [], pr_timestamp = 0\<rparr>,
        \<lparr>pr_reviewer = GEMINI, pr_target = CLAUDE, pr_verdict = V_APPROVED,
         pr_issues = [], pr_recommendations = [], pr_timestamp = 0\<rparr>,
        \<lparr>pr_reviewer = CODEX, pr_target = CLAUDE, pr_verdict = V_APPROVED,
         pr_issues = [], pr_recommendations = [], pr_timestamp = 0\<rparr>])) = CONTINUE)
   \<and> (mset (map pr_verdict
       [\<lparr>pr_reviewer = CODEX, pr_target = GEMINI, pr_verdict = V_BLOCKER,
         pr_issues = [''Critical architecture flaw''], pr_recommendations = [''Redesign component X''], pr_timestamp = 0\<rparr>,
        \<lparr>pr_reviewer = GEMINI, pr_target = CLAUDE, pr_verdict = V_APPROVED,
         pr_issues = [], pr_recommendations = [], pr_timestamp = 0\<rparr>]) =
      mset (map pr_verdict
       [\<lparr>pr_reviewer = GEMINI, pr_target = CLAUDE, pr_verdict = V_APPROVED,
         pr_issues = [], pr_recommendations = [], pr_timestamp = 0\<rparr>,
        \<lparr>pr_reviewer = CODEX, pr_target = GEMINI, pr_verdict = V_BLOCKER,
         pr_issues = [''Critical architecture flaw''], pr_recommendations = [''Redesign component X''], pr_timestamp = 0\<rparr>])
    \<and> dec_action (fst (evaluate_reviews ReviewEngine_init 0
       [\<lparr>pr_reviewer = GEMINI, pr_target = CLAUDE, pr_verdict = V_APPROVED,
         pr_issues = [], pr_recommendations = [], pr_timestamp = 0\<rparr>,
        \<lparr>pr_reviewer = CODEX, pr_target = GEMINI, pr_verdict = V_BLOCKER,
         pr_issues = [''Critical architecture flaw''], pr_recommendations = [''Redesign component X''], pr_timestamp = 0\<rparr>])) = STOP_AND_ESCALATE)"
proof -
  let ?rs1 = "[\<lparr>pr_reviewer = CODEX, pr_target = GEMINI, pr_verdict = V_BLOCKER,
         pr_issues = [''Critical architecture flaw''], pr_recommendations = [''Redesign component X''], pr_timestamp = 0\<rparr>,
        \<lparr>pr_reviewer = GEMINI, pr_target = CLAUDE, pr_verdict = V_APPROVED,
         pr_issues = [], pr_recommendations = [], pr_timestamp = 0\<rparr>]"
  let ?rs1' = "[\<lparr>pr_reviewer = GEMINI, pr_target = CLAUDE, pr_verdict = V_APPROVED,
         pr_issues = [], pr_recommendations = [], pr_timestamp = 0\<rparr>,
        \<lparr>pr_reviewer = CODEX, pr_target = GEMINI, pr_verdict = V_BLOCKER,
         pr_issues = [''Critical architecture flaw''], pr_recommendations = [''Redesign component X''], pr_timestamp = 0\<rparr>]"
  let ?rs2 = "[\<lparr>pr_reviewer = CODEX, pr_target = GEMINI, pr_verdict = V_CONCERNS,
         pr_issues = [''Minor issue 1''], pr_recommendations = [], pr_timestamp = 0\<rparr>,
        \<lparr>pr_reviewer = GEMINI, pr_target = CLAUDE, pr_verdict = V_CONCERNS,
         pr_issues = [''Minor issue 2''], pr_recommendations = [], pr_timestamp = 0\<rparr>]"
  let ?rs3 = "[\<lparr>pr_reviewer = CODEX, pr_target = GEMINI, pr_verdict = V_CONCERNS,
         pr_issues = [''Minor issue 1''], pr_recommendations = [], pr_timestamp = 0\<rparr>,
        \<lparr>pr_reviewer = GEMINI, pr_target = CLAUDE, pr_verdict = V_APPROVED,
         pr_issues = [], pr_recommendations = [], pr_timestamp = 0\<rparr>]"
  let ?rs4 = "[\<lparr>pr_reviewer = CODEX, pr_target = GEMINI, pr_verdict = V_APPROVED,
         pr_issues = [], pr_recommendations = [], pr_timestamp = 0\<rparr>,
        \<lparr>pr_reviewer = GEMINI, pr_target = CLAUDE, pr_verdict = V_APPROVED,
         pr_issues = [], pr_recommendations = [], pr_timestamp = 0\<rparr>,
        \<lparr>pr_reviewer = CODEX, pr_target = CLAUDE, pr_verdict = V_APPROVED,
         pr_issues = [], pr_recommendations = [], pr_timestamp = 0\<rparr>]"
  have h1: "1 \<le> count (mset (map pr_verdict ?rs1)) V_BLOCKER"
    by simp
  have n1: "str_nat (count (mset (map pr_verdict ?rs1)) V_BLOCKER) = ''1''"
    by (simp add: str_nat.simps)
  have h2: "count (mset (map pr_verdict ?rs2)) V_BLOCKER = 0
      \<and> 2 \<le> count (mset (map pr_verdict ?rs2)) V_CONCERNS"
    by simp
  have h3: "count (mset (map pr_verdict ?rs3)) V_BLOCKER = 0
      \<and> count (mset (map pr_verdict ?rs3)) V_CONCERNS = 1"
    by simp
  have h4: "\<forall>r \<in> set ?rs4. pr_verdict r = V_APPROVED"
    by simp
  have h4': "list_all (\<lambda>r. pr_verdict r = V_APPROVED) ?rs4"
    by simp
  have h5: "mset (map pr_verdict ?rs1) = mset (map pr_verdict ?rs1')"
    by simp
  note t1 = evaluate_reviews_precedence
    [of ?rs1 ReviewEngine_init 0 ?rs1' ReviewEngine_init 0]
  note t2 = evaluate_reviews_precedence [of ?rs2 ReviewEngine_init 0]
  note t3 = evaluate_reviews_precedence [of ?rs3 ReviewEngine_init 0]
  note t4 = evaluate_reviews_precedence [of ?rs4 ReviewEngine_init 0]
  have c1: "dec_action (fst (evaluate_reviews ReviewEngine_init 0 ?rs1)) = STOP_AND_ESCALATE"
    using t1 h1 by blast
  have c1r: "dec_reason (fst (evaluate_reviews ReviewEngine_init 0 ?rs1)) =
      ''1 blocker(s) detected''"
    using t1 h1 n1 by simp
  have c2: "dec_action (fst (evaluate_reviews ReviewEngine_init 0 ?rs2)) = PAUSE_AND_CLARIFY"
    using t2 h2 by blast
  have c3: "dec_action (fst (evaluate_reviews ReviewEngine_init 0 ?rs3)) = LOG_WARNING"
    using t3 h3 by blast
  have c4: "dec_action (fst (evaluate_reviews ReviewEngine_init 0 ?rs4)) = CONTINUE"
    using t4 h4 by blast
  have c5: "dec_action (fst (evaluate_reviews ReviewEngine_init 0 ?rs1')) = STOP_AND_ESCALATE"
    using t1 h5 c1 by metis
  show ?thesis
    using h1 c1 c1r h2 c2 h3 c3 h4' c4 h5 c5 by blast
qed

text \<open>
  C2, as the code has it. Every list of reviews is matched by one of the four rules: a
  verdict is approved, concerns or blocker, so with no blocker and no concerns every
  review is approved. The reason of the fifth branch, "Mixed or unclear review results",
  is therefore never returned, and the empty list is matched by the fourth rule: its
  decision is continue with reason "All reviews positive".
\<close>

theorem evaluate_reviews_fallback_unreachable:
  "(0 < count (mset (map pr_verdict rs)) V_BLOCKER
      \<or> 2 \<le> count (mset (map pr_verdict rs)) V_CONCERNS
      \<or> count (mset (map pr_verdict rs)) V_CONCERNS = 1
      \<or> count (mset (map pr_verdict rs)) V_APPROVED = length rs)
   \<and> dec_reason (fst (evaluate_reviews self now rs)) \<noteq> ''Mixed or unclear review results''
   \<and> fst (evaluate_reviews self now []) =
       \<lparr>dec_action = CONTINUE, dec_reason = ''All reviews positive'',
        dec_next_steps = ''Continue work, next review on event trigger'',
        dec_timestamp = now\<rparr>"
proof -
  have a: "0 < count (mset (map pr_verdict rs)) V_BLOCKER
      \<or> 2 \<le> count (mset (map pr_verdict rs)) V_CONCERNS
      \<or> count (mset (map pr_verdict rs)) V_CONCERNS = 1
      \<or> count (mset (map pr_verdict rs)) V_APPROVED = length rs"
    unfolding count_verdicts by (rule some_rule_matches)
  have c: "fst (evaluate_reviews self now []) =
       \<lparr>dec_action = CONTINUE, dec_reason = ''All reviews positive'',
        dec_next_steps = ''Continue work, next review on event trigger'',
        dec_timestamp = now\<rparr>"
    by (simp add: evaluate_reviews_def Let_def)
  from a reason_not_mixed c show ?thesis by blast
qed

text \<open>The empty list of reviews gets continue, not log-warning.\<close>

theorem evaluate_reviews_empty_counterexample:
  "dec_action (fst (evaluate_reviews ReviewEngine_init 0 [])) = CONTINUE
   \<and> dec_action (fst (evaluate_reviews ReviewEngine_init 0 [])) \<noteq> LOG_WARNING
   \<and> dec_reason (fst (evaluate_reviews ReviewEngine_init 0 [])) = ''All reviews positive''"
  by (simp add: evaluate_reviews_def Let_def)

section \<open>Properties of the worker state tracker\<close>

lemma fst_sync_progress:
  "fst (sync_progress v s) = (fst s)\<lparr>ws_progress := max (ws_progress (fst s)) v\<rparr>"
  by (cases s) (simp add: sync_progress_def Let_def)

lemma fst_sync_status:
  "fst (sync_status st s) = (fst s)\<lparr>ws_status := st\<rparr>"
  by (cases s) (simp add: sync_status_def)

lemma fst_set_last_event:
  "fst (set_last_event event s) = (fst s)\<lparr>ws_last_event := Some event\<rparr>"
  by (cases s) (simp add: set_last_event_def)

lemma fst_incr_error_count:
  "fst (incr_error_count s) = (fst s)\<lparr>ws_error_count := ws_error_count (fst s) + 1\<rparr>"
  by (cases s) (simp add: incr_error_count_def)

lemmas fst_steps = fst_sync_progress fst_sync_status fst_set_last_event fst_incr_error_count

lemma running_sync_progress:
  "map_option wp_is_running (snd (sync_progress v s)) = map_option wp_is_running (snd s)"
  by (cases s) (simp add: sync_progress_def Let_def option.map_comp comp_def)

lemma running_sync_status:
  "map_option wp_is_running (snd (sync_status st s)) = map_option wp_is_running (snd s)"
  by (cases s) (simp add: sync_status_def option.map_comp comp_def)

lemma running_set_last_event:
  "map_option wp_is_running (snd (set_last_event event s)) = map_option wp_is_running (snd s)"
  by (cases s) (simp add: set_last_event_def)

lemma running_incr_error_count:
  "map_option wp_is_running (snd (incr_error_count s)) = map_option wp_is_running (snd s)"
  by (cases s) (simp add: incr_error_count_def)

lemmas running_steps =
  running_sync_progress running_sync_status running_set_last_event running_incr_error_count

text \<open>The progress after one event, in closed form.\<close>

lemma fold_event_progress:
  "ws_progress (fst (fold_event event s)) =
     (let p1 = (case pl_progress (ev_payload event) of
                  Some v \<Rightarrow> max (ws_progress (fst s)) v
                | None \<Rightarrow> ws_progress (fst s));
          p2 = (if ev_type event = MILESTONE then max p1 (min (p1 + 20) 90) else p1)
      in if str_in ''complete'' (lower (pl_text (ev_payload event)))
            \<or> str_in ''done'' (lower (pl_text (ev_payload event)))
         then max p2 100 else p2)"
  by (cases "pl_progress (ev_payload event)")
    (simp_all add: fold_event_def Let_def fst_steps)



lemma fold_event_running:
  "map_option wp_is_running (snd (fold_event event s)) = map_option wp_is_running (snd s)"
  by (cases "pl_progress (ev_payload event)")
    (simp_all add: fold_event_def Let_def running_steps)


lemma fold_events_running:
  "map_option wp_is_running (snd (fold_events events s)) = map_option wp_is_running (snd s)"
  by (induction events arbitrary: s) (simp_all add: fold_event_running)

lemma update_process_status_progress:
  "ws_progress (fst (update_process_status s)) = ws_progress (fst s)"
  by (cases s)
    (simp add: update_process_status_def Let_def fst_sync_status split: option.split)




lemma update_process_status_resolved:
  "snd s = Some w \<Longrightarrow> \<not> wp_is_running w \<Longrightarrow> ws_status (fst s) = RUNNING \<Longrightarrow>
     ws_status (fst (update_process_status s))
       = (if 90 \<le> ws_progress (fst s) then COMPLETED else FAILED)"
  by (cases s) (simp add: update_process_status_def Let_def fst_sync_status)

lemma fold_events_handle:
  "\<exists>w'. snd (fold_events events (worker_state, Some worker)) = Some w'
      \<and> wp_is_running w' = wp_is_running worker"
  using fold_events_running [of events "(worker_state, Some worker)"]
  by (cases "snd (fold_events events (worker_state, Some worker))") simp_all



text \<open>
  C4, as the code has it. A milestone event whose payload has no progress field and whose
  text contains neither "complete" nor "done" sets the progress to
  \<open>max progress (min (progress + 20) 90)\<close>: that is \<open>min (progress + 20) 90\<close> when the
  progress is at most 90, and the progress itself above 90. Such an event never brings a
  progress below 100 to 100.
\<close>

theorem milestone_fold_progress:
  "ev_type event = MILESTONE \<Longrightarrow> pl_progress (ev_payload event) = None \<Longrightarrow>
   \<not> str_in ''complete'' (lower (pl_text (ev_payload event))) \<Longrightarrow>
   \<not> str_in ''done'' (lower (pl_text (ev_payload event))) \<Longrightarrow>
     ws_progress (fst (fold_event event (worker_state, worker)))
       = max (ws_progress worker_state) (min (ws_progress worker_state + 20) 90)
     \<and> (ws_progress worker_state \<le> 90 \<longrightarrow>
          ws_progress (fst (fold_event event (worker_state, worker)))
            = min (ws_progress worker_state + 20) 90)
     \<and> (90 < ws_progress worker_state \<longrightarrow>
          ws_progress (fst (fold_event event (worker_state, worker)))
            = ws_progress worker_state)
     \<and> (ws_progress worker_state < 100 \<longrightarrow>
          ws_progress (fst (fold_event event (worker_state, worker))) < 100)"
  unfolding fold_event_progress Let_def by (auto simp: min_def max_def)

theorem milestone_fold_progress_witness:
  "ev_type \<lparr>ev_type = MILESTONE, ev_agent = GEMINI, ev_timestamp = 0,
       ev_payload = \<lparr>pl_text = ''Schema drafted'', pl_progress = None, pl_file = None,
         pl_data = None\<rparr>\<rparr> = MILESTONE
   \<and> pl_progress (ev_payload \<lparr>ev_type = MILESTONE, ev_agent = GEMINI, ev_timestamp = 0,
       ev_payload = \<lparr>pl_text = ''Schema drafted'', pl_progress = None, pl_file = None,
         pl_data = None\<rparr>\<rparr>) = None
   \<and> \<not> str_in ''complete'' (lower (pl_text (ev_payload \<lparr>ev_type = MILESTONE, ev_agent = GEMINI, ev_timestamp = 0,
       ev_payload = \<lparr>pl_text = ''Schema drafted'', pl_progress = None, pl_file = None,
         pl_data = None\<rparr>\<rparr>)))
   \<and> \<not> str_in ''done'' (lower (pl_text (ev_payload \<lparr>ev_type = MILESTONE, ev_agent = GEMINI, ev_timestamp = 0,
       ev_payload = \<lparr>pl_text = ''Schema drafted'', pl_progress = None, pl_file = None,
         pl_data = None\<rparr>\<rparr>)))
   \<and> ws_progress (fst (fold_event \<lparr>ev_type = MILESTONE, ev_agent = GEMINI, ev_timestamp = 0,
       ev_payload = \<lparr>pl_text = ''Schema drafted'', pl_progress = None, pl_file = None,
         pl_data = None\<rparr>\<rparr>
        (\<lparr>ws_name = GEMINI, ws_status = RUNNING, ws_task = Some ''Test task'',
       ws_process_id = Some 4242, ws_start_time = None, ws_last_event = None,
       ws_progress = 30, ws_error_count = 0\<rparr>, None))) = 50
   \<and> ws_progress (fst (fold_event \<lparr>ev_type = MILESTONE, ev_agent = GEMINI, ev_timestamp = 0,
       ev_payload = \<lparr>pl_text = ''Schema drafted'', pl_progress = None, pl_file = None,
         pl_data = None\<rparr>\<rparr>
        (\<lparr>ws_name = GEMINI, ws_status = RUNNING, ws_task = Some ''Test task'',
       ws_process_id = Some 4242, ws_start_time = None, ws_last_event = None,
       ws_progress = 95, ws_error_count = 0\<rparr>, None))) = 95"
proof -
  let ?m = "\<lparr>ev_type = MILESTONE, ev_agent = GEMINI, ev_timestamp = 0,
       ev_payload = \<lparr>pl_text = ''Schema drafted'', pl_progress = None, pl_file = None,
         pl_data = None\<rparr>\<rparr>"
  let ?w30 = "\<lparr>ws_name = GEMINI, ws_status = RUNNING, ws_task = Some ''Test task'',
       ws_process_id = Some 4242, ws_start_time = None, ws_last_event = None,
       ws_progress = 30, ws_error_count = 0\<rparr>"
  let ?w95 = "\<lparr>ws_name = GEMINI, ws_status = RUNNING, ws_task = Some ''Test task'',
       ws_process_id = Some 4242, ws_start_time = None, ws_last_event = None,
       ws_progress = 95, ws_error_count = 0\<rparr>"
  have h1: "ev_type ?m = MILESTONE" and h2: "pl_progress (ev_payload ?m) = None"
    by simp_all
  have h3: "\<not> str_in ''complete'' (lower (pl_text (ev_payload ?m)))"
    by (simp add: lower_def lower_char_def)
  have h4: "\<not> str_in ''done'' (lower (pl_text (ev_payload ?m)))"
    by (simp add: lower_def lower_char_def)
  have a: "ws_progress (fst (fold_event ?m (?w30, None))) = 50"
    using milestone_fold_progress [OF h1 h2 h3 h4, of ?w30 None] by simp
  have b: "ws_progress (fst (fold_event ?m (?w95, None))) = 95"
    using milestone_fold_progress [OF h1 h2 h3 h4, of ?w95 None] by simp
  from h1 h2 h3 h4 a b show ?thesis by blast
qed

text \<open>A milestone event whose text says "complete" brings the progress from 0 to 100, and
  a milestone at progress 95 leaves it at 95, not 90.\<close>

theorem milestone_fold_counterexample:
  "ev_type \<lparr>ev_type = MILESTONE, ev_agent = GEMINI, ev_timestamp = 0,
       ev_payload = \<lparr>pl_text = ''Major phase complete'', pl_progress = None, pl_file = None,
         pl_data = None\<rparr>\<rparr> = MILESTONE
   \<and> ws_progress (fst (fold_event \<lparr>ev_type = MILESTONE, ev_agent = GEMINI, ev_timestamp = 0,
       ev_payload = \<lparr>pl_text = ''Major phase complete'', pl_progress = None, pl_file = None,
         pl_data = None\<rparr>\<rparr>
        (\<lparr>ws_name = GEMINI, ws_status = RUNNING, ws_task = Some ''Test task'',
       ws_process_id = Some 4242, ws_start_time = None, ws_last_event = None,
       ws_progress = 0, ws_error_count = 0\<rparr>, None))) = 100
   \<and> min (ws_progress \<lparr>ws_name = GEMINI, ws_status = RUNNING, ws_task = Some ''Test task'',
       ws_process_id = Some 4242, ws_start_time = None, ws_last_event = None,
       ws_progress = 0, ws_error_count = 0\<rparr> + 20) 90 = 20
   \<and> ws_progress (fst (fold_event \<lparr>ev_type = MILESTONE, ev_agent = GEMINI, ev_timestamp = 0,
       ev_payload = \<lparr>pl_text = ''Schema drafted'', pl_progress = None, pl_file = None,
         pl_data = None\<rparr>\<rparr>
        (\<lparr>ws_name = GEMINI, ws_status = RUNNING, ws_task = Some ''Test task'',
       ws_process_id = Some 4242, ws_start_time = None, ws_last_event = None,
       ws_progress = 95, ws_error_count = 0\<rparr>, None))) = 95
   \<and> min (ws_progress \<lparr>ws_name = GEMINI, ws_status = RUNNING, ws_task = Some ''Test task'',
       ws_process_id = Some 4242, ws_start_time = None, ws_last_event = None,
       ws_progress = 95, ws_error_count = 0\<rparr> + 20) 90 = 90"
  by (simp add: fold_event_def Let_def set_last_event_def sync_progress_def sync_status_def
      lower_def lower_char_def)

text \<open>
  C5. When the status of a worker is running after its batch has been folded and its
  process is no longer running, the tracker resolves the status by the progress:
  completed from 90 on, failed below; the progress is unchanged. This is the state that
  \<^verbatim>\<open>_update_worker_states_from_events\<close> stores for the worker.
\<close>

theorem stopped_running_worker_resolved:
  assumes "ws_status (fst (fold_events events (worker_state, Some worker))) = RUNNING"
    and "\<not> wp_is_running worker"
  shows "ws_status (fst (update_process_status
            (fold_events events (worker_state, Some worker))))
         = (if 90 \<le> ws_progress (fst (fold_events events (worker_state, Some worker)))
            then COMPLETED else FAILED)
     \<and> ws_progress (fst (update_process_status
            (fold_events events (worker_state, Some worker))))
         = ws_progress (fst (fold_events events (worker_state, Some worker)))
     \<and> (map_of (session_workers self) a = Some worker_state
          \<and> map_of (manager_workers self) a = Some worker \<longrightarrow>
        map_of (session_workers (update_worker_states_from_events self [(a, events)])) a
          = Some (fst (update_process_status
               (fold_events events (worker_state, Some worker)))))"
proof -
  obtain w' where w': "snd (fold_events events (worker_state, Some worker)) = Some w'"
    and r: "wp_is_running w' = wp_is_running worker"
    using fold_events_handle by blast
  have 1: "ws_status (fst (update_process_status
            (fold_events events (worker_state, Some worker))))
         = (if 90 \<le> ws_progress (fst (fold_events events (worker_state, Some worker)))
            then COMPLETED else FAILED)"
    using w' r assms by (intro update_process_status_resolved) simp_all
  have 2: "ws_progress (fst (update_process_status
            (fold_events events (worker_state, Some worker))))
         = ws_progress (fst (fold_events events (worker_state, Some worker)))"
    by (rule update_process_status_progress)
  have 3: "map_of (session_workers self) a = Some worker_state
          \<and> map_of (manager_workers self) a = Some worker \<longrightarrow>
        map_of (session_workers (update_worker_states_from_events self [(a, events)])) a
          = Some (fst (update_process_status
               (fold_events events (worker_state, Some worker))))"
    by (simp add: Let_def update_conv')
  from 1 2 3 show ?thesis by blast
qed

theorem stopped_running_worker_resolved_witness:
  "ws_status (fst (fold_events [\<lparr>ev_type = STATUS, ev_agent = GEMINI, ev_timestamp = 0,
       ev_payload = \<lparr>pl_text = ''x'', pl_progress = None, pl_file = None,
         pl_data = None\<rparr>\<rparr>]
      (\<lparr>ws_name = GEMINI, ws_status = RUNNING, ws_task = Some ''Test task'',
       ws_process_id = Some 4242, ws_start_time = None, ws_last_event = None,
       ws_progress = 95, ws_error_count = 0\<rparr>, Some \<lparr>wp_name = GEMINI, wp_is_running = False, wp_stderr_lines = [],
       wp_state = \<lparr>ws_name = GEMINI, ws_status = RUNNING, ws_task = Some ''Test task'',
         ws_process_id = Some 4242, ws_start_time = None, ws_last_event = None,
         ws_progress = 95, ws_error_count = 0\<rparr>\<rparr>))) = RUNNING
   \<and> \<not> wp_is_running \<lparr>wp_name = GEMINI, wp_is_running = False, wp_stderr_lines = [],
       wp_state = \<lparr>ws_name = GEMINI, ws_status = RUNNING, ws_task = Some ''Test task'',
         ws_process_id = Some 4242, ws_start_time = None, ws_last_event = None,
         ws_progress = 95, ws_error_count = 0\<rparr>\<rparr>
   \<and> ws_status (fst (update_process_status (fold_events [\<lparr>ev_type = STATUS, ev_agent = GEMINI, ev_timestamp = 0,
       ev_payload = \<lparr>pl_text = ''x'', pl_progress = None, pl_file = None,
         pl_data = None\<rparr>\<rparr>]
      (\<lparr>ws_name = GEMINI, ws_status = RUNNING, ws_task = Some ''Test task'',
       ws_process_id = Some 4242, ws_start_time = None, ws_last_event = None,
       ws_progress = 95, ws_error_count = 0\<rparr>, Some \<lparr>wp_name = GEMINI, wp_is_running = False, wp_stderr_lines = [],
       wp_state = \<lparr>ws_name = GEMINI, ws_status = RUNNING, ws_task = Some ''Test task'',
         ws_process_id = Some 4242, ws_start_time = None, ws_last_event = None,
         ws_progress = 95, ws_error_count = 0\<rparr>\<rparr>)))) = COMPLETED
   \<and> ws_status (fst (fold_events []
      (\<lparr>ws_name = GEMINI, ws_status = RUNNING, ws_task = Some ''Test task'',
       ws_process_id = Some 4242, ws_start_time = None, ws_last_event = None,
       ws_progress = 40, ws_error_count = 0\<rparr>, Some \<lparr>wp_name = GEMINI, wp_is_running = False, wp_stderr_lines = [],
       wp_state = \<lparr>ws_name = GEMINI, ws_status = RUNNING, ws_task = Some ''Test task'',
         ws_process_id = Some 4242, ws_start_time = None, ws_last_event = None,
         ws_progress = 40, ws_error_count = 0\<rparr>\<rparr>))) = RUNNING
   \<and> \<not> wp_is_running \<lparr>wp_name = GEMINI, wp_is_running = False, wp_stderr_lines = [],
       wp_state = \<lparr>ws_name = GEMINI, ws_status = RUNNING, ws_task = Some ''Test task'',
         ws_process_id = Some 4242, ws_start_time = None, ws_last_event = None,
         ws_progress = 40, ws_error_count = 0\<rparr>\<rparr>
   \<and> ws_status (fst (update_process_status (fold_events []
      (\<lparr>ws_name = GEMINI, ws_status = RUNNING, ws_task = Some ''Test task'',
       ws_process_id = Some 4242, ws_start_time = None, ws_last_event = None,
       ws_progress = 40, ws_error_count = 0\<rparr>, Some \<lparr>wp_name = GEMINI, wp_is_running = False, wp_stderr_lines = [],
       wp_state = \<lparr>ws_name = GEMINI, ws_status = RUNNING, ws_task = Some ''Test task'',
         ws_process_id = Some 4242, ws_start_time = None, ws_last_event = None,
         ws_progress = 40, ws_error_count = 0\<rparr>\<rparr>)))) = FAILED"
proof -
  let ?e = "\<lparr>ev_type = STATUS, ev_agent = GEMINI, ev_timestamp = 0,
       ev_payload = \<lparr>pl_text = ''x'', pl_progress = None, pl_file = None,
         pl_data = None\<rparr>\<rparr>"
  let ?w95 = "\<lparr>ws_name = GEMINI, ws_status = RUNNING, ws_task = Some ''Test task'',
       ws_process_id = Some 4242, ws_start_time = None, ws_last_event = None,
       ws_progress = 95, ws_error_count = 0\<rparr>"
  let ?p95 = "\<lparr>wp_name = GEMINI, wp_is_running = False, wp_stderr_lines = [],
       wp_state = \<lparr>ws_name = GEMINI, ws_status = RUNNING, ws_task = Some ''Test task'',
         ws_process_id = Some 4242, ws_start_time = None, ws_last_event = None,
         ws_progress = 95, ws_error_count = 0\<rparr>\<rparr>"
  let ?w40 = "\<lparr>ws_name = GEMINI, ws_status = RUNNING, ws_task = Some ''Test task'',
       ws_process_id = Some 4242, ws_start_time = None, ws_last_event = None,
       ws_progress = 40, ws_error_count = 0\<rparr>"
  let ?p40 = "\<lparr>wp_name = GEMINI, wp_is_running = False, wp_stderr_lines = [],
       wp_state = \<lparr>ws_name = GEMINI, ws_status = RUNNING, ws_task = Some ''Test task'',
         ws_process_id = Some 4242, ws_start_time = None, ws_last_event = None,
         ws_progress = 40, ws_error_count = 0\<rparr>\<rparr>"
  let ?c = "\<lparr>session_workers = [], manager_workers = []\<rparr>"
  have n: "\<not> str_in ''complete'' (lower ''x'')" "\<not> str_in ''done'' (lower ''x'')"
    by (simp_all add: lower_def lower_char_def)
  have f: "fst (fold_events [?e] (?w95, Some ?p95)) = ?w95\<lparr>ws_last_event := Some ?e\<rparr>"
    using n by (simp add: fold_event_def Let_def fst_steps)
  have h1: "ws_status (fst (fold_events [?e] (?w95, Some ?p95))) = RUNNING"
    unfolding f by simp
  have h2: "\<not> wp_is_running ?p95"
    by simp
  have h3: "ws_status (fst (fold_events [] (?w40, Some ?p40))) = RUNNING"
    by simp
  have h4: "\<not> wp_is_running ?p40"
    by simp
  have a: "ws_status (fst (update_process_status (fold_events [?e] (?w95, Some ?p95))))
      = COMPLETED"
    using stopped_running_worker_resolved [OF h1 h2, of ?c GEMINI] unfolding f by simp
  have b: "ws_status (fst (update_process_status (fold_events [] (?w40, Some ?p40)))) = FAILED"
    using stopped_running_worker_resolved [OF h3 h4, of ?c GEMINI] by simp
  from h1 h2 a h3 h4 b show ?thesis by blast
qed

section \<open>Properties of event ingestion\<close>

lemma read_lines_append:
  "\<forall>l \<in> set pre. strip l \<noteq> [] \<longrightarrow> json_loads lib (strip l) \<noteq> OtherException \<Longrightarrow>
     read_lines lib name now (pre @ post)
       = read_lines lib name now pre @ read_lines lib name now post"
  by (induction pre) (auto simp: Let_def split: loads_result.split option.split)



lemma EventType_of_None:
  "v \<notin> set (map (JString \<circ> fst) EventType_values) \<Longrightarrow> EventType_of v = None"
proof (cases v)
  case (JString s)
  assume "v \<notin> set (map (JString \<circ> fst) EventType_values)"
  with JString have "s \<notin> fst ` set EventType_values"
    by auto
  then have "map_of EventType_values s = None"
    by (simp add: map_of_eq_None_iff)
  with JString show ?thesis by simp
qed simp_all

lemma parse_event_None:
  assumes "map_of kvs ''type'' = None
      \<or> (\<exists>v. map_of kvs ''type'' = Some v \<and> v \<notin> set (map (JString \<circ> fst) EventType_values))"
  shows "parse_event lib name now (JObject kvs) = None"
proof (cases "map_of kvs ''type''")
  case None
  then show ?thesis by (simp add: parse_event_def)
next
  case (Some v)
  with assms have "v \<notin> set (map (JString \<circ> fst) EventType_values)"
    by simp
  then have "EventType_of v = None"
    by (rule EventType_of_None)
  with Some show ?thesis by (simp add: parse_event_def)
qed

lemma parse_event_Some:
  assumes "parse_event lib name now data = Some event"
  shows "\<exists>kvs s. data = JObject kvs \<and> map_of kvs ''type'' = Some (JString s)
      \<and> map_of EventType_values s = Some (ev_type event)"
proof -
  from assms obtain kvs where d: "data = JObject kvs"
    by (cases data) (simp_all add: parse_event_def)
  from assms d obtain v where v: "map_of kvs ''type'' = Some v"
    by (cases "map_of kvs ''type''") (simp_all add: parse_event_def)
  from assms d v obtain ety where e: "EventType_of v = Some ety"
    by (cases "EventType_of v") (simp_all add: parse_event_def split: if_splits)
  then obtain s where s: "v = JString s"
    by (cases v) simp_all
  from assms d v e have "ev_type event = ety"
    by (auto simp: parse_event_def Let_def split: if_splits option.splits)
  with d v e s show ?thesis by simp
qed




text \<open>
  C7. A decoded JSON object with no \<^verbatim>\<open>type\<close> field, or whose \<^verbatim>\<open>type\<close> is not one of the
  ten values of the event kind enumeration, gives no event: \<^verbatim>\<open>_parse_event\<close> returns None
  and the sequence that \<^verbatim>\<open>read_events\<close> returns is the one it returns without that line,
  so its length is unchanged. No kind is substituted: an event that is produced has the
  kind its \<^verbatim>\<open>type\<close> string names.
\<close>

theorem unrecognised_kind_no_event:
  assumes "map_of kvs ''type'' = None
      \<or> (\<exists>v. map_of kvs ''type'' = Some v \<and> v \<notin> set (map (JString \<circ> fst) EventType_values))"
  shows "parse_event lib name now (JObject kvs) = None
     \<and> (strip raw \<noteq> [] \<and> json_loads lib (strip raw) = Decoded (JObject kvs)
        \<and> (\<forall>l \<in> set pre. strip l \<noteq> [] \<longrightarrow> json_loads lib (strip l) \<noteq> OtherException) \<longrightarrow>
          read_events lib name now (Some (pre @ raw # post))
            = read_events lib name now (Some (pre @ post))
          \<and> length (read_events lib name now (Some (pre @ raw # post)))
            = length (read_events lib name now (Some (pre @ post))))
     \<and> (parse_event lib name now data = Some event \<longrightarrow>
          (\<exists>kvs' s. data = JObject kvs' \<and> map_of kvs' ''type'' = Some (JString s)
             \<and> map_of EventType_values s = Some (ev_type event)))
     \<and> map fst EventType_values =
         [''status'', ''progress'', ''finding'', ''task'', ''blocker'', ''milestone'',
          ''review'', ''error'', ''recovery'', ''permission_blocker'']"
proof -
  have 1: "parse_event lib name now (JObject kvs) = None"
    using assms by (rule parse_event_None)
  have 2: "read_events lib name now (Some (pre @ raw # post))
            = read_events lib name now (Some (pre @ post))"
    if "strip raw \<noteq> []" "json_loads lib (strip raw) = Decoded (JObject kvs)"
      "\<forall>l \<in> set pre. strip l \<noteq> [] \<longrightarrow> json_loads lib (strip l) \<noteq> OtherException"
  proof -
    have "read_lines lib name now (raw # post) = read_lines lib name now post"
      using that(1,2) 1 by (simp add: Let_def)
    then show ?thesis
      using that(3) by (simp add: read_events_def read_lines_append)
  qed
  have 3: "map fst EventType_values =
         [''status'', ''progress'', ''finding'', ''task'', ''blocker'', ''milestone'',
          ''review'', ''error'', ''recovery'', ''permission_blocker'']"
    by (simp add: EventType_values_def)
  have 4: "parse_event lib name now data = Some event \<longrightarrow>
          (\<exists>kvs' s. data = JObject kvs' \<and> map_of kvs' ''type'' = Some (JString s)
             \<and> map_of EventType_values s = Some (ev_type event))"
    using parse_event_Some by blast
  from 1 2 3 4 show ?thesis by metis
qed

theorem unrecognised_kind_no_event_witness:
  \<open>map_of [(''payload'', JString ''ok'')] ''type'' = None
   \<and> parse_event
      \<lparr>json_loads = (\<lambda>s.
         if s = ''{"type": "status", "payload": "ok"}''
         then Decoded (JObject [(''type'', JString ''status''), (''payload'', JString ''ok'')])
         else if s = ''{"payload": "ok"}''
         then Decoded (JObject [(''payload'', JString ''ok'')])
         else if s = ''{"type": "heartbeat", "payload": "ok"}''
         then Decoded (JObject [(''type'', JString ''heartbeat''), (''payload'', JString ''ok'')])
         else JSONDecodeError),
       EventPayload_new = (\<lambda>d.
         case map_of d ''text'' of
           Some (JString t) \<Rightarrow>
             Some \<lparr>pl_text = t, pl_progress = None, pl_file = None, pl_data = None\<rparr>
         | _ \<Rightarrow> None),
       fromisoformat = (\<lambda>t. None),
       py_str = (\<lambda>v. [])\<rparr> GEMINI 7 (JObject [(''payload'', JString ''ok'')]) = None
   \<and> map_of [(''type'', JString ''heartbeat''), (''payload'', JString ''ok'')] ''type''
       = Some (JString ''heartbeat'')
   \<and> JString ''heartbeat'' \<notin> set (map (JString \<circ> fst) EventType_values)
   \<and> parse_event
      \<lparr>json_loads = (\<lambda>s.
         if s = ''{"type": "status", "payload": "ok"}''
         then Decoded (JObject [(''type'', JString ''status''), (''payload'', JString ''ok'')])
         else if s = ''{"payload": "ok"}''
         then Decoded (JObject [(''payload'', JString ''ok'')])
         else if s = ''{"type": "heartbeat", "payload": "ok"}''
         then Decoded (JObject [(''type'', JString ''heartbeat''), (''payload'', JString ''ok'')])
         else JSONDecodeError),
       EventPayload_new = (\<lambda>d.
         case map_of d ''text'' of
           Some (JString t) \<Rightarrow>
             Some \<lparr>pl_text = t, pl_progress = None, pl_file = None, pl_data = None\<rparr>
         | _ \<Rightarrow> None),
       fromisoformat = (\<lambda>t. None),
       py_str = (\<lambda>v. [])\<rparr> GEMINI 7
      (JObject [(''type'', JString ''heartbeat''), (''payload'', JString ''ok'')]) = None
   \<and> json_loads
      \<lparr>json_loads = (\<lambda>s.
         if s = ''{"type": "status", "payload": "ok"}''
         then Decoded (JObject [(''type'', JString ''status''), (''payload'', JString ''ok'')])
         else if s = ''{"payload": "ok"}''
         then Decoded (JObject [(''payload'', JString ''ok'')])
         else if s = ''{"type": "heartbeat", "payload": "ok"}''
         then Decoded (JObject [(''type'', JString ''heartbeat''), (''payload'', JString ''ok'')])
         else JSONDecodeError),
       EventPayload_new = (\<lambda>d.
         case map_of d ''text'' of
           Some (JString t) \<Rightarrow>
             Some \<lparr>pl_text = t, pl_progress = None, pl_file = None, pl_data = None\<rparr>
         | _ \<Rightarrow> None),
       fromisoformat = (\<lambda>t. None),
       py_str = (\<lambda>v. [])\<rparr> (strip ''{"type": "heartbeat", "payload": "ok"}'')
       = Decoded (JObject [(''type'', JString ''heartbeat''), (''payload'', JString ''ok'')])
   \<and> read_events
      \<lparr>json_loads = (\<lambda>s.
         if s = ''{"type": "status", "payload": "ok"}''
         then Decoded (JObject [(''type'', JString ''status''), (''payload'', JString ''ok'')])
         else if s = ''{"payload": "ok"}''
         then Decoded (JObject [(''payload'', JString ''ok'')])
         else if s = ''{"type": "heartbeat", "payload": "ok"}''
         then Decoded (JObject [(''type'', JString ''heartbeat''), (''payload'', JString ''ok'')])
         else JSONDecodeError),
       EventPayload_new = (\<lambda>d.
         case map_of d ''text'' of
           Some (JString t) \<Rightarrow>
             Some \<lparr>pl_text = t, pl_progress = None, pl_file = None, pl_data = None\<rparr>
         | _ \<Rightarrow> None),
       fromisoformat = (\<lambda>t. None),
       py_str = (\<lambda>v. [])\<rparr> GEMINI 7
      (Some ([''{"type": "status", "payload": "ok"}'']
         @ ''{"type": "heartbeat", "payload": "ok"}'' # []))
     = read_events
      \<lparr>json_loads = (\<lambda>s.
         if s = ''{"type": "status", "payload": "ok"}''
         then Decoded (JObject [(''type'', JString ''status''), (''payload'', JString ''ok'')])
         else if s = ''{"payload": "ok"}''
         then Decoded (JObject [(''payload'', JString ''ok'')])
         else if s = ''{"type": "heartbeat", "payload": "ok"}''
         then Decoded (JObject [(''type'', JString ''heartbeat''), (''payload'', JString ''ok'')])
         else JSONDecodeError),
       EventPayload_new = (\<lambda>d.
         case map_of d ''text'' of
           Some (JString t) \<Rightarrow>
             Some \<lparr>pl_text = t, pl_progress = None, pl_file = None, pl_data = None\<rparr>
         | _ \<Rightarrow> None),
       fromisoformat = (\<lambda>t. None),
       py_str = (\<lambda>v. [])\<rparr> GEMINI 7
      (Some ([''{"type": "status", "payload": "ok"}''] @ []))
   \<and> parse_event
      \<lparr>json_loads = (\<lambda>s.
         if s = ''{"type": "status", "payload": "ok"}''
         then Decoded (JObject [(''type'', JString ''status''), (''payload'', JString ''ok'')])
         else if s = ''{"payload": "ok"}''
         then Decoded (JObject [(''payload'', JString ''ok'')])
         else if s = ''{"type": "heartbeat", "payload": "ok"}''
         then Decoded (JObject [(''type'', JString ''heartbeat''), (''payload'', JString ''ok'')])
         else JSONDecodeError),
       EventPayload_new = (\<lambda>d.
         case map_of d ''text'' of
           Some (JString t) \<Rightarrow>
             Some \<lparr>pl_text = t, pl_progress = None, pl_file = None, pl_data = None\<rparr>
         | _ \<Rightarrow> None),
       fromisoformat = (\<lambda>t. None),
       py_str = (\<lambda>v. [])\<rparr> GEMINI 7
      (JObject [(''type'', JString ''status''), (''payload'', JString ''ok'')])
     = Some \<lparr>ev_type = STATUS, ev_agent = GEMINI, ev_timestamp = 7,
        ev_payload = \<lparr>pl_text = ''ok'', pl_progress = None, pl_file = None,
          pl_data = None\<rparr>\<rparr>
   \<and> map_of EventType_values ''status'' = Some STATUS\<close>
proof -
  let ?L = \<open>\<lparr>json_loads = (\<lambda>s.
         if s = ''{"type": "status", "payload": "ok"}''
         then Decoded (JObject [(''type'', JString ''status''), (''payload'', JString ''ok'')])
         else if s = ''{"payload": "ok"}''
         then Decoded (JObject [(''payload'', JString ''ok'')])
         else if s = ''{"type": "heartbeat", "payload": "ok"}''
         then Decoded (JObject [(''type'', JString ''heartbeat''), (''payload'', JString ''ok'')])
         else JSONDecodeError),
       EventPayload_new = (\<lambda>d.
         case map_of d ''text'' of
           Some (JString t) \<Rightarrow>
             Some \<lparr>pl_text = t, pl_progress = None, pl_file = None, pl_data = None\<rparr>
         | _ \<Rightarrow> None),
       fromisoformat = (\<lambda>t. None),
       py_str = (\<lambda>v. [])\<rparr>\<close>
  let ?k1 = "[(''payload'', JString ''ok'')]"
  let ?k2 = "[(''type'', JString ''heartbeat''), (''payload'', JString ''ok'')]"
  let ?k3 = "[(''type'', JString ''status''), (''payload'', JString ''ok'')]"
  let ?raw = \<open>''{"type": "heartbeat", "payload": "ok"}''\<close>
  let ?pre = \<open>[''{"type": "status", "payload": "ok"}'']\<close>
  have spre: \<open>strip ''{"type": "status", "payload": "ok"}''
      = ''{"type": "status", "payload": "ok"}''\<close>
    by (simp add: strip_def isspace_def)
  have sraw: "strip ?raw = ?raw"
    by (simp add: strip_def isspace_def)
  have a1: "map_of ?k1 ''type'' = None"
    by simp
  have a2: "map_of ?k2 ''type'' = Some (JString ''heartbeat'')"
    by simp
  have a3: "JString ''heartbeat'' \<notin> set (map (JString \<circ> fst) EventType_values)"
    by (simp add: EventType_values_def)
  have h1: "map_of ?k1 ''type'' = None
      \<or> (\<exists>v. map_of ?k1 ''type'' = Some v \<and> v \<notin> set (map (JString \<circ> fst) EventType_values))"
    using a1 by blast
  have h2: "map_of ?k2 ''type'' = None
      \<or> (\<exists>v. map_of ?k2 ''type'' = Some v \<and> v \<notin> set (map (JString \<circ> fst) EventType_values))"
    using a2 a3 by blast
  have b1: "strip ?raw \<noteq> []"
    unfolding sraw by simp
  have b2: "json_loads ?L (strip ?raw) = Decoded (JObject ?k2)"
    unfolding sraw by simp
  have b3: "\<forall>l \<in> set ?pre. strip l \<noteq> [] \<longrightarrow> json_loads ?L (strip l) \<noteq> OtherException"
    using spre by simp
  have c: \<open>parse_event ?L GEMINI 7 (JObject ?k3) = Some \<lparr>ev_type = STATUS, ev_agent = GEMINI, ev_timestamp = 7,
        ev_payload = \<lparr>pl_text = ''ok'', pl_progress = None, pl_file = None,
          pl_data = None\<rparr>\<rparr>\<close>
    by (simp add: parse_event_def EventType_values_def)
  have d: "map_of EventType_values ''status'' = Some STATUS"
    by (simp add: EventType_values_def)
  note t1 = unrecognised_kind_no_event [OF h1, of ?L GEMINI 7]
  note t2 = unrecognised_kind_no_event [OF h2, of ?L GEMINI 7 ?raw ?pre "[]"]
  have r1: "parse_event ?L GEMINI 7 (JObject ?k1) = None"
    using t1 by blast
  have r2: "parse_event ?L GEMINI 7 (JObject ?k2) = None"
    using t2 by blast
  have r3: "read_events ?L GEMINI 7 (Some (?pre @ ?raw # []))
      = read_events ?L GEMINI 7 (Some (?pre @ []))"
    using t2 b1 b2 b3 by blast
  from a1 r1 a2 a3 r2 b2 r3 c d show ?thesis by blast
qed

section \<open>Properties of error detection\<close>

lemma detect_workspace_path:
  "detect_error_type GEMINI ''Path must be within one of the workspace directories''
     = Some ''gemini_permissions''"
proof -
  have "re_search_IGNORECASE ''Path must be within one of the workspace directories''
      ''Path must be within one of the workspace directories''"
    by (simp add: re_search_IGNORECASE_def lower_def lower_char_def)
  moreover have "str_in ''workspace directories''
      ''Path must be within one of the workspace directories''"
    by simp
  ultimately show ?thesis
    by (simp add: detect_error_type_def ERROR_PATTERNS_def)
qed

text \<open>
  C8. For the architect role (Gemini), the batch of a status event with text "x" and an
  error event with text "Path must be within one of the workspace directories" is
  detected as "gemini_permissions", whatever the stderr lines of the worker are.
\<close>

theorem gemini_permission_detected:
  "wp_name worker = GEMINI \<Longrightarrow>
   check_for_errors worker
     [\<lparr>ev_type = STATUS, ev_agent = GEMINI, ev_timestamp = t1,
        ev_payload = \<lparr>pl_text = ''x'', pl_progress = None, pl_file = None,
          pl_data = None\<rparr>\<rparr>,
      \<lparr>ev_type = ERROR, ev_agent = GEMINI, ev_timestamp = t2,
        ev_payload = \<lparr>pl_text = ''Path must be within one of the workspace directories'', pl_progress = None, pl_file = None,
          pl_data = None\<rparr>\<rparr>]
     = Some ''gemini_permissions''"
  by (simp add: detect_workspace_path)

theorem gemini_permission_detected_witness:
  "wp_name \<lparr>wp_name = GEMINI, wp_is_running = False, wp_stderr_lines = [],
         wp_state = \<lparr>ws_name = GEMINI, ws_status = IDLE, ws_task = Some ''Test task'',
           ws_process_id = Some 4242, ws_start_time = None, ws_last_event = None,
           ws_progress = 0, ws_error_count = 0\<rparr>\<rparr> = GEMINI
   \<and> check_for_errors \<lparr>wp_name = GEMINI, wp_is_running = False, wp_stderr_lines = [],
         wp_state = \<lparr>ws_name = GEMINI, ws_status = IDLE, ws_task = Some ''Test task'',
           ws_process_id = Some 4242, ws_start_time = None, ws_last_event = None,
           ws_progress = 0, ws_error_count = 0\<rparr>\<rparr>
     [\<lparr>ev_type = STATUS, ev_agent = GEMINI, ev_timestamp = 0,
        ev_payload = \<lparr>pl_text = ''x'', pl_progress = None, pl_file = None,
          pl_data = None\<rparr>\<rparr>,
      \<lparr>ev_type = ERROR, ev_agent = GEMINI, ev_timestamp = 0,
        ev_payload = \<lparr>pl_text = ''Path must be within one of the workspace directories'', pl_progress = None, pl_file = None,
          pl_data = None\<rparr>\<rparr>]
     = Some ''gemini_permissions''"
proof -
  have h: "wp_name \<lparr>wp_name = GEMINI, wp_is_running = False, wp_stderr_lines = [],
         wp_state = \<lparr>ws_name = GEMINI, ws_status = IDLE, ws_task = Some ''Test task'',
           ws_process_id = Some 4242, ws_start_time = None, ws_last_event = None,
           ws_progress = 0, ws_error_count = 0\<rparr>\<rparr> = GEMINI"
    by simp
  from h gemini_permission_detected [OF h, of 0 0] show ?thesis by blast
qed

section \<open>Properties of the completion check\<close>

lemma all_complete_iff:
  "all_complete manager workers =
     (\<forall>(agent_name, worker_state) \<in> set workers.
        ws_status worker_state = COMPLETED \<or> ws_status worker_state = FAILED
        \<or> (case map_of manager agent_name of
              None \<Rightarrow> True
            | Some worker \<Rightarrow> \<not> wp_is_running worker))"
  by (induction workers) (auto split: option.splits if_splits)

text \<open>
  C9, as the code has it. The completion check returns true exactly when the session has
  at least one worker and every worker either has status completed or failed, or has no
  running process (no process handle, or a process that is no longer running). A worker
  with a terminal status does not hold completion back, whether its process is alive or
  not; a session with no worker is not complete.
\<close>

theorem check_completion_iff:
  "check_completion self =
     (session_workers self \<noteq> []
      \<and> (\<forall>(agent_name, worker_state) \<in> set (session_workers self).
           ws_status worker_state = COMPLETED \<or> ws_status worker_state = FAILED
           \<or> (case map_of (manager_workers self) agent_name of
                 None \<Rightarrow> True
               | Some worker \<Rightarrow> \<not> wp_is_running worker)))"
  by (simp add: check_completion_def all_complete_iff)

theorem check_completion_iff_witness:
  "check_completion
      \<lparr>session_workers = [(GEMINI, \<lparr>ws_name = GEMINI, ws_status = BLOCKED, ws_task = Some ''Test task'',
         ws_process_id = Some 4242, ws_start_time = None, ws_last_event = None,
         ws_progress = 40, ws_error_count = 0\<rparr>)],
       manager_workers = [(GEMINI, \<lparr>wp_name = GEMINI, wp_is_running = False, wp_stderr_lines = [],
         wp_state = \<lparr>ws_name = GEMINI, ws_status = BLOCKED, ws_task = Some ''Test task'',
           ws_process_id = Some 4242, ws_start_time = None, ws_last_event = None,
           ws_progress = 40, ws_error_count = 0\<rparr>\<rparr>)]\<rparr>
   \<and> \<not> check_completion
      \<lparr>session_workers = [(GEMINI, \<lparr>ws_name = GEMINI, ws_status = BLOCKED, ws_task = Some ''Test task'',
         ws_process_id = Some 4242, ws_start_time = None, ws_last_event = None,
         ws_progress = 40, ws_error_count = 0\<rparr>)],
       manager_workers = [(GEMINI, \<lparr>wp_name = GEMINI, wp_is_running = True, wp_stderr_lines = [],
         wp_state = \<lparr>ws_name = GEMINI, ws_status = BLOCKED, ws_task = Some ''Test task'',
           ws_process_id = Some 4242, ws_start_time = None, ws_last_event = None,
           ws_progress = 40, ws_error_count = 0\<rparr>\<rparr>)]\<rparr>"
  using check_completion_iff [of "\<lparr>session_workers = [(GEMINI, \<lparr>ws_name = GEMINI, ws_status = BLOCKED, ws_task = Some ''Test task'',
         ws_process_id = Some 4242, ws_start_time = None, ws_last_event = None,
         ws_progress = 40, ws_error_count = 0\<rparr>)],
       manager_workers = [(GEMINI, \<lparr>wp_name = GEMINI, wp_is_running = False, wp_stderr_lines = [],
         wp_state = \<lparr>ws_name = GEMINI, ws_status = BLOCKED, ws_task = Some ''Test task'',
           ws_process_id = Some 4242, ws_start_time = None, ws_last_event = None,
           ws_progress = 40, ws_error_count = 0\<rparr>\<rparr>)]\<rparr>"]
    check_completion_iff [of "\<lparr>session_workers = [(GEMINI, \<lparr>ws_name = GEMINI, ws_status = BLOCKED, ws_task = Some ''Test task'',
         ws_process_id = Some 4242, ws_start_time = None, ws_last_event = None,
         ws_progress = 40, ws_error_count = 0\<rparr>)],
       manager_workers = [(GEMINI, \<lparr>wp_name = GEMINI, wp_is_running = True, wp_stderr_lines = [],
         wp_state = \<lparr>ws_name = GEMINI, ws_status = BLOCKED, ws_task = Some ''Test task'',
           ws_process_id = Some 4242, ws_start_time = None, ws_last_event = None,
           ws_progress = 40, ws_error_count = 0\<rparr>\<rparr>)]\<rparr>"]
  by simp

text \<open>The check is false on the session without workers; it is true with a completed worker
  whose process is still running, and with a blocked worker whose process has stopped.\<close>

theorem check_completion_counterexample:
  "\<not> check_completion \<lparr>session_workers = [], manager_workers = []\<rparr>
   \<and> check_completion
      \<lparr>session_workers = [(GEMINI, \<lparr>ws_name = GEMINI, ws_status = COMPLETED, ws_task = Some ''Test task'',
         ws_process_id = Some 4242, ws_start_time = None, ws_last_event = None,
         ws_progress = 100, ws_error_count = 0\<rparr>)],
       manager_workers = [(GEMINI, \<lparr>wp_name = GEMINI, wp_is_running = True, wp_stderr_lines = [],
         wp_state = \<lparr>ws_name = GEMINI, ws_status = COMPLETED, ws_task = Some ''Test task'',
           ws_process_id = Some 4242, ws_start_time = None, ws_last_event = None,
           ws_progress = 100, ws_error_count = 0\<rparr>\<rparr>)]\<rparr>
   \<and> check_completion
      \<lparr>session_workers = [(GEMINI, \<lparr>ws_name = GEMINI, ws_status = BLOCKED, ws_task = Some ''Test task'',
         ws_process_id = Some 4242, ws_start_time = None, ws_last_event = None,
         ws_progress = 40, ws_error_count = 0\<rparr>)],
       manager_workers = [(GEMINI, \<lparr>wp_name = GEMINI, wp_is_running = False, wp_stderr_lines = [],
         wp_state = \<lparr>ws_name = GEMINI, ws_status = BLOCKED, ws_task = Some ''Test task'',
           ws_process_id = Some 4242, ws_start_time = None, ws_last_event = None,
           ws_progress = 40, ws_error_count = 0\<rparr>\<rparr>)]\<rparr>"
  by (simp add: check_completion_def)

section \<open>Properties of the review trigger\<close>

lemma trigger_in_events_iff:
  "trigger_in_events agent_events =
     (\<exists>event \<in> set agent_events.
        ev_type event = MILESTONE \<or> ev_type event = BLOCKER
        \<or> str_in ''review'' (lower (pl_text (ev_payload event))))"
  by (induction agent_events) auto

lemma trigger_in_agents_iff:
  "trigger_in_agents events =
     (\<exists>(name, agent_events) \<in> set events. \<exists>event \<in> set agent_events.
        ev_type event = MILESTONE \<or> ev_type event = BLOCKER
        \<or> str_in ''review'' (lower (pl_text (ev_payload event))))"
  by (induction events) (auto simp: trigger_in_events_iff)

text \<open>
  C10. As long as no review time is recorded, \<^verbatim>\<open>should_trigger_review\<close> without force is
  true exactly when some pending event is of kind milestone or blocker, or has a text that
  contains "review" in any letter case, whatever the clock says. The engine starts
  without a review time, and \<^verbatim>\<open>evaluate_reviews\<close> records one.
\<close>

theorem no_time_fallback_before_first_review:
  "last_review_time self = None \<Longrightarrow>
     should_trigger_review self now events False =
       (\<exists>(name, agent_events) \<in> set events. \<exists>event \<in> set agent_events.
          ev_type event = MILESTONE \<or> ev_type event = BLOCKER
          \<or> str_in ''review'' (lower (pl_text (ev_payload event))))
     \<and> last_review_time ReviewEngine_init = None
     \<and> last_review_time (snd (evaluate_reviews self now' rs)) = Some now'"
  by (simp add: should_trigger_review_def trigger_in_agents_iff ReviewEngine_init_def
      evaluate_reviews_def Let_def)

theorem no_time_fallback_before_first_review_witness:
  "last_review_time ReviewEngine_init = None
   \<and> \<not> should_trigger_review ReviewEngine_init 86400000000
       [(GEMINI, [\<lparr>ev_type = STATUS, ev_agent = GEMINI, ev_timestamp = 0,
        ev_payload = \<lparr>pl_text = ''x'', pl_progress = None, pl_file = None,
          pl_data = None\<rparr>\<rparr>]),
        (CLAUDE, [])] False
   \<and> should_trigger_review ReviewEngine_init 86400000000
       [(GEMINI, [\<lparr>ev_type = STATUS, ev_agent = GEMINI, ev_timestamp = 0,
        ev_payload = \<lparr>pl_text = ''x'', pl_progress = None, pl_file = None,
          pl_data = None\<rparr>\<rparr>]),
        (CLAUDE, [\<lparr>ev_type = FINDING, ev_agent = GEMINI, ev_timestamp = 0,
        ev_payload = \<lparr>pl_text = ''Please REVIEW the schema'', pl_progress = None, pl_file = None,
          pl_data = None\<rparr>\<rparr>])] False
   \<and> should_trigger_review ReviewEngine_init 0
       [(GEMINI, [\<lparr>ev_type = MILESTONE, ev_agent = GEMINI, ev_timestamp = 0,
        ev_payload = \<lparr>pl_text = ''Design ready'', pl_progress = None, pl_file = None,
          pl_data = None\<rparr>\<rparr>])] False"
proof -
  have h: "last_review_time ReviewEngine_init = None"
    by (simp add: ReviewEngine_init_def)
  have l: "lower ''x'' = ''x''" "lower ''Please REVIEW the schema'' = ''please review the schema''"
    "lower ''Design ready'' = ''design ready''"
    by (simp_all add: lower_def lower_char_def)
  have a: "\<not> should_trigger_review ReviewEngine_init 86400000000
       [(GEMINI, [\<lparr>ev_type = STATUS, ev_agent = GEMINI, ev_timestamp = 0,
        ev_payload = \<lparr>pl_text = ''x'', pl_progress = None, pl_file = None,
          pl_data = None\<rparr>\<rparr>]),
        (CLAUDE, [])] False"
    using no_time_fallback_before_first_review [OF h, of 86400000000
       "[(GEMINI, [\<lparr>ev_type = STATUS, ev_agent = GEMINI, ev_timestamp = 0,
        ev_payload = \<lparr>pl_text = ''x'', pl_progress = None, pl_file = None,
          pl_data = None\<rparr>\<rparr>]),
        (CLAUDE, [])]"]
    by (simp add: l)
  have b: "should_trigger_review ReviewEngine_init 86400000000
       [(GEMINI, [\<lparr>ev_type = STATUS, ev_agent = GEMINI, ev_timestamp = 0,
        ev_payload = \<lparr>pl_text = ''x'', pl_progress = None, pl_file = None,
          pl_data = None\<rparr>\<rparr>]),
        (CLAUDE, [\<lparr>ev_type = FINDING, ev_agent = GEMINI, ev_timestamp = 0,
        ev_payload = \<lparr>pl_text = ''Please REVIEW the schema'', pl_progress = None, pl_file = None,
          pl_data = None\<rparr>\<rparr>])] False"
    using no_time_fallback_before_first_review [OF h, of 86400000000
       "[(GEMINI, [\<lparr>ev_type = STATUS, ev_agent = GEMINI, ev_timestamp = 0,
        ev_payload = \<lparr>pl_text = ''x'', pl_progress = None, pl_file = None,
          pl_data = None\<rparr>\<rparr>]),
        (CLAUDE, [\<lparr>ev_type = FINDING, ev_agent = GEMINI, ev_timestamp = 0,
        ev_payload = \<lparr>pl_text = ''Please REVIEW the schema'', pl_progress = None, pl_file = None,
          pl_data = None\<rparr>\<rparr>])]"]
    by (simp add: l)
  have c: "should_trigger_review ReviewEngine_init 0
       [(GEMINI, [\<lparr>ev_type = MILESTONE, ev_agent = GEMINI, ev_timestamp = 0,
        ev_payload = \<lparr>pl_text = ''Design ready'', pl_progress = None, pl_file = None,
          pl_data = None\<rparr>\<rparr>])] False"
    using no_time_fallback_before_first_review [OF h, of 0
       "[(GEMINI, [\<lparr>ev_type = MILESTONE, ev_agent = GEMINI, ev_timestamp = 0,
        ev_payload = \<lparr>pl_text = ''Design ready'', pl_progress = None, pl_file = None,
          pl_data = None\<rparr>\<rparr>])]"]
    by (simp add: l)
  from h a b c show ?thesis by blast
qed

end
